theory Spec2Isabelle
  imports Main "HOL-Library.Sublist"
begin

section \<open>Data model of the countdown-timer application\<close>

text \<open>
  A timer document as the Mongoose schema of \<^verbatim>\<open>models/Timer.js\<close> declares it, and as
  the plain objects handed to the shared utilities and to the storefront widget.
  Instants are epoch milliseconds (\<open>Date.getTime()\<close>), modelled as \<open>int\<close>. The schema
  option \<open>timestamps: true\<close> adds the fields \<open>createdAt\<close> and \<open>updatedAt\<close>. Strings are
  lists of ASCII characters throughout: ids, shop domains and stored numerals are ASCII.
\<close>

datatype timer_type = Fixed | Evergreen

datatype scope = All | Products | Collections

text \<open>
  What a date field of a timer object can hold: nothing (\<open>undefined\<close>), \<open>null\<close>,
  something \<open>new Date(...)\<close> cannot parse (it yields an Invalid Date, whose time value is
  \<open>NaN\<close>), or a date denoting an instant.
\<close>

datatype date_field = Missing | Null | Unparseable | Instant int

text \<open>
  The status strings. \<open>'unknown'\<close>, \<open>'inactive'\<close>, \<open>'active'\<close>, \<open>'scheduled'\<close> and
  \<open>'expired'\<close> are returned by \<open>calculateTimerStatus\<close>; \<open>'invalid'\<close> is returned by
  \<open>determineStatus\<close> of \<^verbatim>\<open>__tests__/timer.test.js\<close> only.
\<close>

datatype status = Unknown | Inactive | Active | Scheduled | Expired | Invalid

record targeting =
  scope :: "scope option"
  productIds :: "string list option"
  collectionIds :: "string list option"

record appearance =
  backgroundColor :: "string option"
  textColor :: "string option"
  position :: "string option"
  headline :: "string option"
  supportingText :: "string option"

record timer =
  timerId :: string
  shop :: string
  name :: string
  type :: timer_type
  startDate :: date_field
  endDate :: date_field
  durationMinutes :: "int option"
  targeting :: "targeting option"
  appearance :: "appearance option"
  impressions :: int
  isActive :: bool
  isAiGenerated :: bool
  createdAt :: int
  updatedAt :: int

section \<open>Dates and comparisons\<close>

text \<open>
  \<open>new Date(v)\<close>, read through its time value: \<open>None\<close> is \<open>NaN\<close> (Invalid Date).
  \<open>new Date(undefined)\<close> and an unparseable string give an Invalid Date;
  \<open>new Date(null)\<close> is the epoch.
\<close>

fun new_Date :: "date_field \<Rightarrow> int option" where
  "new_Date Missing = None"
| "new_Date Null = Some 0"
| "new_Date Unparseable = None"
| "new_Date (Instant t) = Some t"

text \<open>JavaScript's \<open><\<close> and \<open>>\<close> on time values: any comparison with \<open>NaN\<close> is false.\<close>

fun js_lt :: "int option \<Rightarrow> int option \<Rightarrow> bool" where
  "js_lt (Some a) (Some b) = (a < b)"
| "js_lt _ _ = False"

definition js_gt :: "int option \<Rightarrow> int option \<Rightarrow> bool" where
  "js_gt a b = js_lt b a"

fun js_le :: "int option \<Rightarrow> int option \<Rightarrow> bool" where
  "js_le (Some a) (Some b) = (a \<le> b)"
| "js_le _ _ = False"

section \<open>Status computation\<close>

text \<open>
  \<open>calculateTimerStatus\<close> of the shared timer utilities. The argument \<open>None\<close> is a
  \<open>null\<close>/\<open>undefined\<close> timer; \<open>now\<close> is the value of \<open>new Date()\<close>.
\<close>

definition calculateTimerStatus :: "timer option \<Rightarrow> int \<Rightarrow> status" where
  "calculateTimerStatus timer now =
     (case timer of
        None \<Rightarrow> Unknown
      | Some t \<Rightarrow>
          if \<not> isActive t then Inactive
          else if type t = Evergreen then Active
          else
            let start = new_Date (startDate t);
                end = new_Date (endDate t)
            in if js_lt (Some now) start then Scheduled
               else if js_gt (Some now) end then Expired
               else Active)"

text \<open>
  The \<open>status\<close> virtual of the schema (\<^verbatim>\<open>models/Timer.js\<close>). It compares the stored
  fields with \<open>now\<close> directly; \<open>null > now\<close> compares \<open>0\<close>, \<open>undefined > now\<close>
  compares \<open>NaN\<close>, as \<open>new_Date\<close> does.
\<close>

definition status_virtual :: "timer \<Rightarrow> int \<Rightarrow> status" where
  "status_virtual this now =
     (if \<not> isActive this then Inactive
      else if type this = Evergreen then Active
      else if js_gt (new_Date (startDate this)) (Some now) then Scheduled
      else if js_lt (new_Date (endDate this)) (Some now) then Expired
      else Active)"

text \<open>
  \<open>determineStatus\<close> of \<^verbatim>\<open>__tests__/timer.test.js\<close> (Test 4, "Timer Status
  Determination"): the status function the test suite exercises. \<open>!timer.startDate\<close> holds
  for \<open>undefined\<close> and \<open>null\<close>; \<open>durationMinutes > 0\<close> is false for a missing duration.
\<close>

definition falsy_date :: "date_field \<Rightarrow> bool" where
  "falsy_date d = (d = Missing \<or> d = Null)"

definition determineStatus :: "timer option \<Rightarrow> int \<Rightarrow> status" where
  "determineStatus timer now =
     (case timer of
        None \<Rightarrow> Unknown
      | Some t \<Rightarrow>
          if \<not> isActive t then Inactive
          else if type t = Evergreen then
            (case durationMinutes t of
               None \<Rightarrow> Invalid
             | Some d \<Rightarrow> if d > 0 then Active else Invalid)
          else if falsy_date (startDate t) \<or> falsy_date (endDate t) then Invalid
          else
            let start = new_Date (startDate t);
                end = new_Date (endDate t)
            in if start = None \<or> end = None then Invalid
               else if js_le end start then Invalid
               else if js_lt (Some now) start then Scheduled
               else if js_gt (Some now) end then Expired
               else Active)"

text \<open>
  The position of a status in the lifecycle \<open>Scheduled \<rightarrow> Active \<rightarrow> Expired\<close> of a fixed
  timer; the other statuses are not part of that chain.
\<close>

fun lifecycle_pos :: "status \<Rightarrow> nat option" where
  "lifecycle_pos Scheduled = Some 0"
| "lifecycle_pos Active = Some 1"
| "lifecycle_pos Expired = Some 2"
| "lifecycle_pos _ = None"

text \<open>A sample fixed timer with no dates, as in the test suite's \<open>{ type: 'fixed', isActive: true }\<close>.\<close>

definition sample_timer :: timer where
  "sample_timer =
     \<lparr> timerId = ''t1'', shop = ''a.myshopify.com'', name = ''Sale'', type = Fixed,
       startDate = Missing, endDate = Missing, durationMinutes = None,
       targeting = None, appearance = None, impressions = 0, isActive = True,
       isAiGenerated = False, createdAt = 0, updatedAt = 0 \<rparr>"

section \<open>Targeting matcher\<close>

text \<open>\<open>s.includes(sub)\<close> on strings: \<open>sub\<close> occurs in \<open>s\<close> as a contiguous run.\<close>

definition str_includes :: "string \<Rightarrow> string \<Rightarrow> bool" where
  "str_includes s sub = sublist sub s"

text \<open>Truthiness of an optional string: \<open>undefined\<close> and \<open>''\<close> are falsy.\<close>

fun truthy :: "string option \<Rightarrow> bool" where
  "truthy None = False"
| "truthy (Some s) = (s \<noteq> [])"

text \<open>\<open>timer.targeting?.scope || 'all'\<close>.\<close>

definition targeting_scope :: "timer \<Rightarrow> scope" where
  "targeting_scope timer =
     (case targeting timer of
        None \<Rightarrow> All
      | Some tg \<Rightarrow> (case scope tg of None \<Rightarrow> All | Some sc \<Rightarrow> sc))"

text \<open>
  \<open>matchesTargeting\<close> of the shared utilities; the filter callback of the storefront
  route (\<^verbatim>\<open>routes/storefront.js\<close>, lines 60 to 89) is the same code inlined.
  \<open>ids?.some(...)\<close> on a missing list is \<open>undefined\<close>, which the callers treat as false.
  The parameter \<open>collIds\<close> is the source's \<open>collectionIds\<close> (a field of the same name
  exists).
\<close>

definition matchesTargeting :: "timer \<Rightarrow> string option \<Rightarrow> string list \<Rightarrow> bool" where
  "matchesTargeting timer productId collIds =
     (case targeting_scope timer of
        All \<Rightarrow> True
      | Products \<Rightarrow>
          (case (productId, targeting timer) of
             (Some pid, Some tg) \<Rightarrow>
               if pid \<noteq> [] then
                 (case productIds tg of
                    None \<Rightarrow> False
                  | Some ids \<Rightarrow>
                      list_ex (\<lambda>i. i = pid \<or> str_includes i pid \<or> str_includes pid i) ids)
               else False
           | _ \<Rightarrow> False)
      | Collections \<Rightarrow>
          (case targeting timer of
             Some tg \<Rightarrow>
               if collIds \<noteq> [] then
                 (case targeting.collectionIds tg of
                    None \<Rightarrow> False
                  | Some ids \<Rightarrow>
                      list_ex (\<lambda>i. list_ex (\<lambda>cid. cid = i \<or> str_includes cid i \<or> str_includes i cid)
                                 collIds) ids)
               else False
           | None \<Rightarrow> False))"

text \<open>
  The targeting filter of \<open>Timer.findActiveForProduct\<close> (\<^verbatim>\<open>models/Timer.js\<close>), which
  uses \<open>Array.prototype.includes\<close>: membership by equality.
\<close>

definition model_targeting_filter :: "timer \<Rightarrow> string option \<Rightarrow> string list \<Rightarrow> bool" where
  "model_targeting_filter timer productId collIds =
     (case targeting_scope timer of
        All \<Rightarrow> True
      | Products \<Rightarrow>
          (case (productId, targeting timer) of
             (Some pid, Some tg) \<Rightarrow>
               if pid \<noteq> [] then
                 (case productIds tg of None \<Rightarrow> False | Some ids \<Rightarrow> pid \<in> set ids)
               else False
           | _ \<Rightarrow> False)
      | Collections \<Rightarrow>
          (case targeting timer of
             Some tg \<Rightarrow>
               if collIds \<noteq> [] then
                 (case targeting.collectionIds tg of
                    None \<Rightarrow> False
                  | Some ids \<Rightarrow> list_ex (\<lambda>i. i \<in> set collIds) ids)
               else False
           | None \<Rightarrow> False))"

text \<open>A timer targeting the single product id \<open>120\<close>, and one targeting the collection \<open>c-10\<close>.\<close>

definition products_timer :: timer where
  "products_timer = sample_timer\<lparr>targeting :=
     Some \<lparr>scope = Some Products, productIds = Some [''120''], collectionIds = Some []\<rparr>\<rparr>"

definition collections_timer :: timer where
  "collections_timer = sample_timer\<lparr>targeting :=
     Some \<lparr>scope = Some Collections, productIds = Some [], collectionIds = Some [''c-10'']\<rparr>\<rparr>"

section \<open>Storefront read path\<close>

text \<open>
  String helpers of the route, on ASCII strings: \<open>toLowerCase\<close>, \<open>trim\<close> and
  \<open>split(',')\<close>.
\<close>

definition toLowerCase_char :: "char \<Rightarrow> char" where
  "toLowerCase_char c =
     (case map_of (zip ''ABCDEFGHIJKLMNOPQRSTUVWXYZ'' ''abcdefghijklmnopqrstuvwxyz'') c of
        None \<Rightarrow> c
      | Some l \<Rightarrow> l)"

definition toLowerCase :: "string \<Rightarrow> string" where
  "toLowerCase s = map toLowerCase_char s"

definition is_whitespace :: "char \<Rightarrow> bool" where
  "is_whitespace c = ((of_char c :: nat) \<in> {9, 10, 11, 12, 13, 32})"

definition trim :: "string \<Rightarrow> string" where
  "trim s = rev (dropWhile is_whitespace (rev (dropWhile is_whitespace s)))"

fun split_comma :: "string \<Rightarrow> string list" where
  "split_comma [] = [[]]"
| "split_comma (c # cs) =
     (if c = CHR '','' then [] # split_comma cs
      else (case split_comma cs of
              [] \<Rightarrow> [[c]]
            | w # ws \<Rightarrow> (c # w) # ws))"

text \<open>
  \<open>collectionIds ? collectionIds.split(',').map(id => id.trim()).filter(Boolean) : []\<close>.
\<close>

definition collectionIdArray :: "string option \<Rightarrow> string list" where
  "collectionIdArray collIds =
     (case collIds of
        None \<Rightarrow> []
      | Some s \<Rightarrow> if s = [] then [] else filter (\<lambda>i. i \<noteq> []) (map trim (split_comma s)))"

text \<open>
  The query of the route, as a predicate on one document. MongoDB's \<open>$lte\<close>/\<open>$gte\<close>
  against a date match only a stored date: a missing or \<open>null\<close> field never matches.
\<close>

fun date_lte :: "date_field \<Rightarrow> int \<Rightarrow> bool" where
  "date_lte (Instant t) now = (t \<le> now)"
| "date_lte _ now = False"

fun date_gte :: "date_field \<Rightarrow> int \<Rightarrow> bool" where
  "date_gte (Instant t) now = (t \<ge> now)"
| "date_gte _ now = False"

definition active_query :: "string \<Rightarrow> int \<Rightarrow> timer \<Rightarrow> bool" where
  "active_query normalizedShop now t =
     (shop t = normalizedShop \<and> isActive t \<and>
      (type t = Evergreen \<or>
       (type t = Fixed \<and> date_lte (startDate t) now \<and> date_gte (endDate t) now)))"

text \<open>
  \<open>Timer.find(query).sort({ createdAt: -1 })\<close> over the collection \<open>db\<close>: the matching
  documents, newest first (a stable sort on the creation time, descending).
\<close>

definition find_sorted :: "string \<Rightarrow> int \<Rightarrow> timer list \<Rightarrow> timer list" where
  "find_sorted normalizedShop now db =
     sort_key (\<lambda>t. - createdAt t) (filter (active_query normalizedShop now) db)"

text \<open>
  Lines 39 to 92 of the route: query, sort, targeting filter, and \<open>matchingTimers[0]\<close>
  (\<open>undefined\<close>, here \<open>None\<close>, when nothing matches).
\<close>

definition select_timer ::
  "string \<Rightarrow> int \<Rightarrow> string option \<Rightarrow> string list \<Rightarrow> timer list \<Rightarrow> timer option" where
  "select_timer normalizedShop now productId collIds db =
     (case filter (\<lambda>timer. matchesTargeting timer productId collIds)
             (find_sorted normalizedShop now db) of
        [] \<Rightarrow> None
      | timer # _ \<Rightarrow> Some timer)"

text \<open>The response object, as a JSON-like value: an ordered list of keys and values.\<close>

datatype json =
  JUndefined | JNull | JString string | JNumber int | JDate int
  | JObject "(string \<times> json) list"

text \<open>\<open>v || d\<close> for an optional string \<open>v\<close>.\<close>

fun or_default :: "string option \<Rightarrow> string \<Rightarrow> string" where
  "or_default None d = d"
| "or_default (Some s) d = (if s = [] then d else s)"

text \<open>\<open>timer.appearance?.field\<close>.\<close>

definition appearance_field ::
  "(appearance \<Rightarrow> string option) \<Rightarrow> timer \<Rightarrow> string option" where
  "appearance_field f timer = (case appearance timer of None \<Rightarrow> None | Some a \<Rightarrow> f a)"

fun json_of_date :: "date_field \<Rightarrow> json" where
  "json_of_date Missing = JUndefined"
| "json_of_date Null = JNull"
| "json_of_date Unparseable = JNull"
| "json_of_date (Instant t) = JDate t"

fun json_of_type :: "timer_type \<Rightarrow> json" where
  "json_of_type Fixed = JString ''fixed''"
| "json_of_type Evergreen = JString ''evergreen''"

fun json_of_number :: "int option \<Rightarrow> json" where
  "json_of_number None = JUndefined"
| "json_of_number (Some n) = JNumber n"

text \<open>Lines 104 to 122: the minimal response built from the selected timer.\<close>

definition build_response :: "timer \<Rightarrow> (string \<times> json) list" where
  "build_response timer =
     [(''id'', JString (timerId timer)),
      (''type'', json_of_type (type timer)),
      (''appearance'', JObject
         [(''backgroundColor'', JString (or_default (appearance_field backgroundColor timer) ''#000000'')),
          (''textColor'', JString (or_default (appearance_field textColor timer) ''#FFFFFF'')),
          (''position'', JString (or_default (appearance_field position timer) ''above-cart'')),
          (''headline'', JString (or_default (appearance_field headline timer) '''')),
          (''supportingText'', JString (or_default (appearance_field supportingText timer) ''''))])]
     @ (case type timer of
          Fixed \<Rightarrow> [(''endDate'', json_of_date (endDate timer)),
                    (''startDate'', json_of_date (startDate timer))]
        | Evergreen \<Rightarrow> [(''durationMinutes'', json_of_number (durationMinutes timer))])"

text \<open>
  The handler \<open>GET /timer\<close>. The query parameters are optional strings; the collection is
  read as a list (a failing database, which the handler answers with status 500, is not
  modelled).
\<close>

datatype timer_response =
  Status400
  | Status404
  | Status200 "(string \<times> json) list"

definition get_timer ::
  "string option \<Rightarrow> string option \<Rightarrow> string option \<Rightarrow> int \<Rightarrow> timer list \<Rightarrow> timer_response" where
  "get_timer shopParam productId collIds now db =
     (case shopParam of
        None \<Rightarrow> Status400
      | Some s \<Rightarrow>
          if s = [] then Status400
          else
            (case select_timer (trim (toLowerCase s)) now productId (collectionIdArray collIds) db of
               None \<Rightarrow> Status404
             | Some timer \<Rightarrow> Status200 (build_response timer)))"

text \<open>
  \<open>Timer.findActiveForProduct\<close> of the model: the same query and sort, then the model's
  own targeting filter; it returns the whole filtered list.
\<close>

definition findActiveForProduct ::
  "string \<Rightarrow> string option \<Rightarrow> string list \<Rightarrow> int \<Rightarrow> timer list \<Rightarrow> timer list" where
  "findActiveForProduct shopParam productId collIds now db =
     filter (\<lambda>timer. model_targeting_filter timer productId collIds)
       (find_sorted shopParam now db)"

text \<open>
  The targeting contract in the words of the specification (its section 4.2): scope
  \<open>All\<close> always matches; scope \<open>Products\<close> matches iff a product id is supplied and is
  one of the timer's product ids; scope \<open>Collections\<close> matches iff the supplied collection
  ids are not empty and share an element with the timer's collection ids; a record without
  targeting (or without a scope) is treated as scope \<open>All\<close>. Ids are compared by equality.
\<close>

definition matches_exact :: "timer \<Rightarrow> string option \<Rightarrow> string list \<Rightarrow> bool" where
  "matches_exact t productId collIds =
     (case targeting_scope t of
        All \<Rightarrow> True
      | Products \<Rightarrow>
          (case (productId, targeting t) of
             (Some pid, Some tg) \<Rightarrow>
               (case productIds tg of None \<Rightarrow> False | Some ids \<Rightarrow> pid \<in> set ids)
           | _ \<Rightarrow> False)
      | Collections \<Rightarrow>
          (case targeting t of
             Some tg \<Rightarrow>
               (case targeting.collectionIds tg of
                  None \<Rightarrow> False
                | Some ids \<Rightarrow> collIds \<noteq> [] \<and> (\<exists>c \<in> set collIds. c \<in> set ids))
           | None \<Rightarrow> False))"

text \<open>
  Eligibility in the words of the selection contract (section 4.3): owned by the shop,
  active, time-eligible (evergreen, or fixed with \<open>start \<le> now \<le> end\<close>), and accepted by
  the targeting contract above.
\<close>

fun in_window :: "date_field \<Rightarrow> date_field \<Rightarrow> int \<Rightarrow> bool" where
  "in_window (Instant s) (Instant e) now = (s \<le> now \<and> now \<le> e)"
| "in_window _ _ now = False"

definition eligible :: "string \<Rightarrow> int \<Rightarrow> string option \<Rightarrow> string list \<Rightarrow> timer \<Rightarrow> bool" where
  "eligible sh now productId collIds t =
     (shop t = sh \<and> isActive t \<and>
      (type t = Evergreen \<or> (type t = Fixed \<and> in_window (startDate t) (endDate t) now)) \<and>
      matches_exact t productId collIds)"

section \<open>Impression recording\<close>

text \<open>
  The update \<open>{ $inc: { impressions: 1 } }\<close> as Mongoose applies it to a schema with
  \<open>timestamps: true\<close>: the counter is incremented and \<open>updatedAt\<close> is set to the time
  \<open>now\<close> of the update.
\<close>

definition inc_impressions :: "int \<Rightarrow> timer \<Rightarrow> timer" where
  "inc_impressions now t = t\<lparr>impressions := impressions t + 1, updatedAt := now\<rparr>"

text \<open>
  What the server code can throw: a \<open>TypeError\<close> (a method called on a value that lacks
  it), an error of the database call, and a failed \<open>save\<close> (validation or database).
\<close>

datatype server_error = TypeError | DatabaseError | SaveError

text \<open>
  \<open>save()\<close> of a modified document: it fails, or the document is written with
  \<open>updatedAt\<close> set to the time of the save. Whether it fails is a parameter.
\<close>

definition save :: "bool \<Rightarrow> int \<Rightarrow> timer \<Rightarrow> server_error + timer" where
  "save saveFails now this = (if saveFails then Inl SaveError else Inr (this\<lparr>updatedAt := now\<rparr>))"

text \<open>The instance method \<open>incrementImpressions\<close>: \<open>this.impressions += 1; return this.save()\<close>.\<close>

definition incrementImpressions :: "bool \<Rightarrow> int \<Rightarrow> timer \<Rightarrow> server_error + timer" where
  "incrementImpressions saveFails now this =
     save saveFails now (this\<lparr>impressions := impressions this + 1\<rparr>)"

text \<open>
  \<open>findOneAndUpdate(filter, update)\<close>: the first document the filter accepts is updated
  in place; the document found (before the update) is returned, \<open>null\<close> when there is none.
\<close>

fun findOneAndUpdate ::
  "(timer \<Rightarrow> bool) \<Rightarrow> (timer \<Rightarrow> timer) \<Rightarrow> timer list \<Rightarrow> timer option \<times> timer list" where
  "findOneAndUpdate P f [] = (None, [])"
| "findOneAndUpdate P f (t # ts) =
     (if P t then (Some t, f t # ts)
      else (case findOneAndUpdate P f ts of (r, ts') \<Rightarrow> (r, t # ts')))"

text \<open>
  The \<open>shop\<close> field of the request body, which is any JSON value: absent or falsy
  (\<open>undefined\<close>, \<open>null\<close>, \<open>false\<close>, \<open>0\<close>), a string, or a truthy value that is not a
  string (a number, \<open>true\<close>, an array, an object).
\<close>

datatype body_shop = NoShop | ShopString string | ShopOther

text \<open>
  The filter \<open>{ _id: id, ...(shop ? { shop: shop.toLowerCase().trim() } : {}) }\<close>.
  Building it throws a \<open>TypeError\<close> for a truthy \<open>shop\<close> that is not a string. The id of
  the request is cast to an ObjectId by the library before it is compared; \<open>castId\<close>
  gives the stored form of the id a request string denotes.
\<close>

fun shop_condition :: "body_shop \<Rightarrow> server_error + (timer \<Rightarrow> bool)" where
  "shop_condition NoShop = Inr (\<lambda>t. True)"
| "shop_condition (ShopString s) =
     (if s = [] then Inr (\<lambda>t. True) else Inr (\<lambda>t. shop t = trim (toLowerCase s)))"
| "shop_condition ShopOther = Inl TypeError"

datatype impression_response = Impression400 | Impression404 | ImpressionRecorded

text \<open>
  The \<open>try\<close> block of the handler \<open>POST /timer/:id/impression\<close>, after the id check:
  the answer and the new collection, or the error thrown. \<open>dbThrows\<close> says whether the
  database call throws; \<open>now\<close> is the time of the update.
\<close>

definition impression_try ::
  "(string \<Rightarrow> string) \<Rightarrow> bool \<Rightarrow> int \<Rightarrow> string \<Rightarrow> body_shop \<Rightarrow> timer list
     \<Rightarrow> server_error + impression_response \<times> timer list" where
  "impression_try castId dbThrows now ident shopField db =
     (case shop_condition shopField of
        Inl e \<Rightarrow> Inl e
      | Inr cond \<Rightarrow>
          if dbThrows then Inl DatabaseError
          else
            (case findOneAndUpdate (\<lambda>t. timerId t = castId ident \<and> cond t)
                    (inc_impressions now) db of
               (None, db') \<Rightarrow> Inr (Impression404, db')
             | (Some timer, db') \<Rightarrow> Inr (ImpressionRecorded, db')))"

text \<open>
  The handler. \<open>isValid\<close> stands for \<open>mongoose.Types.ObjectId.isValid\<close>, a library
  function. The \<open>catch\<close> clause answers every error with \<open>success: true\<close> and the
  message \<open>Impression recorded\<close>, the answer of a recorded impression.
\<close>

definition post_impression ::
  "(string \<Rightarrow> bool) \<Rightarrow> (string \<Rightarrow> string) \<Rightarrow> bool \<Rightarrow> int \<Rightarrow> string \<Rightarrow> body_shop
     \<Rightarrow> timer list \<Rightarrow> impression_response \<times> timer list" where
  "post_impression isValid castId dbThrows now ident shopField db =
     (if \<not> isValid ident then (Impression400, db)
      else
        (case impression_try castId dbThrows now ident shopField db of
           Inl e \<Rightarrow> (ImpressionRecorded, db)
         | Inr r \<Rightarrow> r))"

text \<open>
  Which documents an impression request selects when nothing throws: those with the
  request's id and, when a shop string is given, that shop.
\<close>

definition impression_filter :: "(string \<Rightarrow> string) \<Rightarrow> string \<Rightarrow> body_shop \<Rightarrow> timer \<Rightarrow> bool" where
  "impression_filter castId ident shopField t =
     (timerId t = castId ident \<and>
      (case shopField of
         ShopString s \<Rightarrow> s = [] \<or> shop t = trim (toLowerCase s)
       | _ \<Rightarrow> True))"

text \<open>
  The 24-digit hexadecimal form of an ObjectId, which \<open>ObjectId.isValid\<close> accepts, and its
  stored (lower-case) form.
\<close>

definition hex24 :: "string \<Rightarrow> bool" where
  "hex24 s = (length s = 24 \<and> list_all (\<lambda>c. c \<in> set ''0123456789abcdefABCDEF'') s)"

text \<open>
  Sample documents: a fixed timer of shop \<open>a\<close> with window \<open>[10, 20]\<close> created at 1, an
  evergreen timer of shop \<open>a\<close> created at 2, and an evergreen timer of shop \<open>b\<close> created
  at 3.
\<close>

definition fixed_timer :: timer where
  "fixed_timer = sample_timer\<lparr>startDate := Instant 10, endDate := Instant 20, createdAt := 1\<rparr>"

definition evergreen_timer :: timer where
  "evergreen_timer = sample_timer\<lparr>timerId := ''t2'', type := Evergreen,
     durationMinutes := Some 60, createdAt := 2\<rparr>"

definition other_shop_timer :: timer where
  "other_shop_timer = sample_timer\<lparr>timerId := ''t3'', shop := ''b.myshopify.com'',
     type := Evergreen, durationMinutes := Some 5, createdAt := 3\<rparr>"

text \<open>
  Two evergreen timers of shop \<open>a\<close>: the newer one targets the product \<open>120\<close>, the older
  one the product \<open>12\<close>.
\<close>

definition product120_timer :: timer where
  "product120_timer = evergreen_timer\<lparr>timerId := ''t120'', createdAt := 5, targeting :=
     Some \<lparr>scope = Some Products, productIds = Some [''120''], collectionIds = Some []\<rparr>\<rparr>"

definition product12_timer :: timer where
  "product12_timer = evergreen_timer\<lparr>timerId := ''t12'', createdAt := 4, targeting :=
     Some \<lparr>scope = Some Products, productIds = Some [''12''], collectionIds = Some []\<rparr>\<rparr>"

text \<open>Two documents with ObjectId ids, of shops \<open>a\<close> and \<open>b\<close>.\<close>

definition doc_a :: timer where
  "doc_a = evergreen_timer\<lparr>timerId := ''507f1f77bcf86cd799439011''\<rparr>"

definition doc_b :: timer where
  "doc_b = other_shop_timer\<lparr>timerId := ''507f1f77bcf86cd799439012''\<rparr>"

text \<open>The records of one shop in a collection.\<close>

definition shop_records :: "string \<Rightarrow> timer list \<Rightarrow> timer list" where
  "shop_records sh db = filter (\<lambda>t. shop t = sh) db"

section \<open>Numbers and strings of the widget\<close>

text \<open>
  JavaScript numbers as the widget uses them: integers (milliseconds, minutes) and \<open>NaN\<close>,
  which is \<open>None\<close>. Arithmetic with \<open>NaN\<close> gives \<open>NaN\<close>. Time values (at most
  \<open>8.64e15\<close> in magnitude) and the durations of the schema lie within the safe integers,
  where the arithmetic of doubles is exact.
\<close>

fun js_add :: "int option \<Rightarrow> int option \<Rightarrow> int option" where
  "js_add (Some a) (Some b) = Some (a + b)"
| "js_add _ _ = None"

fun js_sub :: "int option \<Rightarrow> int option \<Rightarrow> int option" where
  "js_sub (Some a) (Some b) = Some (a - b)"
| "js_sub _ _ = None"

fun js_mul :: "int option \<Rightarrow> int option \<Rightarrow> int option" where
  "js_mul (Some a) (Some b) = Some (a * b)"
| "js_mul _ _ = None"

definition js_ge :: "int option \<Rightarrow> int option \<Rightarrow> bool" where
  "js_ge a b = js_le b a"

text \<open>
  \<open>String(n)\<close> for an integer \<open>n\<close>: its decimal numeral (the form JavaScript gives to
  every integer below \<open>1e21\<close> in magnitude, hence to every time value).
\<close>

definition digit_char :: "nat \<Rightarrow> char" where
  "digit_char d = ''0123456789'' ! d"

fun string_of_nat :: "nat \<Rightarrow> string" where
  "string_of_nat n =
     (if n < 10 then [digit_char n] else string_of_nat (n div 10) @ [digit_char (n mod 10)])"

declare string_of_nat.simps [simp del]

definition String_of :: "int \<Rightarrow> string" where
  "String_of n = (if n < 0 then CHR ''-'' # string_of_nat (nat (- n)) else string_of_nat (nat n))"

text \<open>
  \<open>parseInt(s, 10)\<close>: leading white space is skipped, a sign is read, then the longest run
  of decimal digits; with no digit the result is \<open>NaN\<close>. The result is an IEEE double: a
  numeral whose magnitude is at most \<open>Number.MAX_SAFE_INTEGER\<close> is read exactly, a larger
  one is rounded or becomes an infinity. The model tracks the first kind only and marks
  the second as \<open>Beyond\<close>.
\<close>

definition digit_value :: "char \<Rightarrow> int option" where
  "digit_value c = map_of (zip ''0123456789'' [0, 1, 2, 3, 4, 5, 6, 7, 8, 9]) c"

definition is_digit :: "char \<Rightarrow> bool" where
  "is_digit c = (digit_value c \<noteq> None)"

fun parse_digits :: "int \<Rightarrow> string \<Rightarrow> int" where
  "parse_digits acc [] = acc"
| "parse_digits acc (c # cs) =
     (case digit_value c of
        None \<Rightarrow> acc
      | Some d \<Rightarrow> parse_digits (acc * 10 + d) cs)"

definition MAX_SAFE_INTEGER :: int where
  "MAX_SAFE_INTEGER = 9007199254740991"

datatype parsed = NotANumber | SafeInteger int | Beyond

definition parseInt :: "string \<Rightarrow> parsed" where
  "parseInt s =
     (let t = dropWhile is_whitespace s;
          sign = (case t of c # r \<Rightarrow> if c = CHR ''-'' then - 1 else 1 | [] \<Rightarrow> 1);
          u = (case t of c # r \<Rightarrow> if c = CHR ''-'' \<or> c = CHR ''+'' then r else t | [] \<Rightarrow> []);
          v = sign * parse_digits 0 u
      in if takeWhile is_digit u = [] then NotANumber
         else if \<bar>v\<bar> \<le> MAX_SAFE_INTEGER then SafeInteger v
         else Beyond)"

text \<open>
  A result the model tracks, or one it does not: what the widget computes from a stored
  numeral beyond the safe integers depends on double rounding, which is not modelled.
\<close>

datatype 'a tracked = Tracked 'a | Untracked

text \<open>\<open>pad\<close>: \<open>String(num).padStart(2, '0')\<close>.\<close>

definition pad :: "int \<Rightarrow> string" where
  "pad num = (let s = String_of num in replicate (2 - length s) CHR ''0'' @ s)"

section \<open>Time decomposition\<close>

text \<open>
  \<open>parseTimeRemaining\<close> of the widget (\<^verbatim>\<open>assets/timer-widget.js\<close>): hours, minutes,
  seconds and the expiry flag. For \<open>ms > 0\<close>, \<open>Math.floor(ms / 1000)\<close> is \<open>ms div 1000\<close>
  and \<open>%\<close> is \<open>mod\<close>.
\<close>

record widget_time =
  hours :: int
  minutes :: int
  seconds :: int
  expired :: bool

definition parseTimeRemaining_widget :: "int \<Rightarrow> widget_time" where
  "parseTimeRemaining_widget ms =
     (if ms \<le> 0 then \<lparr>hours = 0, minutes = 0, seconds = 0, expired = True\<rparr>
      else
        let totalSeconds = ms div 1000
        in \<lparr>hours = totalSeconds div 3600,
            minutes = (totalSeconds mod 3600) div 60,
            seconds = totalSeconds mod 60,
            expired = False\<rparr>)"

text \<open>
  \<open>calculateTimeRemaining\<close> and \<open>parseTimeRemaining\<close> of the shared utilities: the
  latter also splits off days. \<open>end_ms\<close> is \<open>new Date(endDate).getTime()\<close>.
\<close>

record time_parts = widget_time +
  days :: int

definition calculateTimeRemaining :: "int \<Rightarrow> int \<Rightarrow> int" where
  "calculateTimeRemaining end_ms now = max 0 (end_ms - now)"

definition parseTimeRemaining :: "int \<Rightarrow> time_parts" where
  "parseTimeRemaining ms =
     (if ms \<le> 0 then \<lparr>hours = 0, minutes = 0, seconds = 0, expired = True, days = 0\<rparr>
      else
        let totalSeconds = ms div 1000
        in \<lparr>hours = (totalSeconds mod 86400) div 3600,
            minutes = (totalSeconds mod 3600) div 60,
            seconds = totalSeconds mod 60,
            expired = False,
            days = totalSeconds div 86400\<rparr>)"

text \<open>\<open>padTime\<close> and \<open>formatCountdown\<close> of the shared utilities.\<close>

definition padTime :: "int \<Rightarrow> string" where
  "padTime num = pad num"

definition formatCountdown :: "time_parts \<Rightarrow> string" where
  "formatCountdown time =
     (if days time > 0
      then String_of (days time) @ ''d '' @ padTime (hours time) @ '':''
             @ padTime (minutes time) @ '':'' @ padTime (seconds time)
      else padTime (hours time) @ '':'' @ padTime (minutes time) @ '':''
             @ padTime (seconds time))"

section \<open>Evergreen session clock\<close>

text \<open>
  The visitor's \<open>localStorage\<close>: its items, and which of its operations throw (a storage
  that is unavailable throws on the first access, which is \<open>getItem\<close>).
\<close>

record storage =
  items :: "string \<Rightarrow> string option"
  getItem_throws :: bool
  setItem_throws :: bool
  removeItem_throws :: bool

datatype exn = StorageError

definition getItem :: "storage \<Rightarrow> string \<Rightarrow> exn + string option" where
  "getItem st key = (if getItem_throws st then Inl StorageError else Inr (items st key))"

definition setItem :: "storage \<Rightarrow> string \<Rightarrow> string \<Rightarrow> exn + storage" where
  "setItem st key v =
     (if setItem_throws st then Inl StorageError
      else Inr (st\<lparr>items := (items st)(key := Some v)\<rparr>))"

definition removeItem :: "storage \<Rightarrow> string \<Rightarrow> exn + storage" where
  "removeItem st key =
     (if removeItem_throws st then Inl StorageError
      else Inr (st\<lparr>items := (items st)(key := None)\<rparr>))"

definition getStorageKey :: "string \<Rightarrow> string" where
  "getStorageKey ident = ''countdown_timer_'' @ ident"

text \<open>\<open>timer.durationMinutes * 60 * 1000\<close>; a missing duration makes it \<open>NaN\<close>.\<close>

definition durationMs :: "timer \<Rightarrow> int option" where
  "durationMs timer = js_mul (js_mul (durationMinutes timer) (Some 60)) (Some 1000)"

text \<open>
  The \<open>try\<close> block of \<open>setupTimerEndpoint\<close>: the start time it computes, or the exception
  it raises, together with the storage as the block leaves it. \<open>now\<close> is the value of
  \<open>Date.now()\<close> during the call. A stored numeral that parses to \<open>NaN\<close> is kept as the
  start (\<open>NaN >= durationMs\<close> is false); one beyond the safe integers is not tracked.
\<close>

definition evergreen_try ::
  "timer \<Rightarrow> storage \<Rightarrow> int \<Rightarrow> ((exn + int option) \<times> storage) tracked" where
  "evergreen_try timer st now =
     (let storageKey = getStorageKey (timerId timer) in
      case getItem st storageKey of
        Inl e \<Rightarrow> Tracked (Inl e, st)
      | Inr stored \<Rightarrow>
          (case (if truthy stored then stored else None) of
             Some s \<Rightarrow>
               (case parseInt s of
                  Beyond \<Rightarrow> Untracked
                | p \<Rightarrow>
                    let startTime = (case p of SafeInteger v \<Rightarrow> Some v | _ \<Rightarrow> None);
                        elapsed = js_sub (Some now) startTime
                    in if js_ge elapsed (durationMs timer) then
                         (case removeItem st storageKey of
                            Inl e \<Rightarrow> Tracked (Inl e, st)
                          | Inr st1 \<Rightarrow>
                              (case setItem st1 storageKey (String_of now) of
                                 Inl e \<Rightarrow> Tracked (Inl e, st1)
                               | Inr st2 \<Rightarrow> Tracked (Inr (Some now), st2)))
                       else Tracked (Inr startTime, st))
           | None \<Rightarrow>
               (case setItem st storageKey (String_of now) of
                  Inl e \<Rightarrow> Tracked (Inl e, st)
                | Inr st1 \<Rightarrow> Tracked (Inr (Some now), st1))))"

text \<open>
  The state of one widget instance: the timer it was served, its end instant, the handle
  of its interval, the live intervals of the page that belong to it, the pending restart
  timeouts, what it displays, and how often \<open>handleExpired\<close> has run.
\<close>

record widget =
  wtimer :: timer
  endTime :: "int option"
  intervalId :: "nat option"
  liveIntervals :: "nat list"
  nextHandle :: nat
  pendingRestarts :: nat
  hidden :: bool
  timeDisplay :: string
  expiredCalls :: nat

text \<open>
  \<open>setupTimerEndpoint\<close>: the end instant of a fixed timer is its end date; that of an
  evergreen timer is the visitor's start plus the duration, where the \<open>catch\<close> clause
  replaces a failed storage access by a start at \<open>now\<close>.
\<close>

definition setupTimerEndpoint ::
  "widget \<Rightarrow> storage \<Rightarrow> int \<Rightarrow> (widget \<times> storage) tracked" where
  "setupTimerEndpoint w st now =
     (let timer = wtimer w in
      case type timer of
        Fixed \<Rightarrow> Tracked (w\<lparr>endTime := new_Date (endDate timer)\<rparr>, st)
      | Evergreen \<Rightarrow>
          (case evergreen_try timer st now of
             Untracked \<Rightarrow> Untracked
           | Tracked (r, st') \<Rightarrow>
               let startTime = (case r of Inl e \<Rightarrow> Some now | Inr s \<Rightarrow> s)
               in Tracked (w\<lparr>endTime := js_add startTime (durationMs timer)\<rparr>, st')))"

section \<open>Countdown render loop\<close>

text \<open>
  \<open>handleExpired\<close>: the interval the widget holds is cleared; an evergreen widget removes
  its storage key (ignoring a failure) and schedules a restart, a fixed one hides itself.
\<close>

definition handleExpired :: "widget \<Rightarrow> storage \<Rightarrow> widget \<times> storage" where
  "handleExpired w st =
     (let w1 = (case intervalId w of
                  None \<Rightarrow> w
                | Some h \<Rightarrow> w\<lparr>liveIntervals := removeAll h (liveIntervals w), intervalId := None\<rparr>);
          w2 = w1\<lparr>expiredCalls := expiredCalls w1 + 1\<rparr>
      in case type (wtimer w2) of
           Evergreen \<Rightarrow>
             (let st' = (case removeItem st (getStorageKey (timerId (wtimer w2))) of
                           Inl e \<Rightarrow> st
                         | Inr st1 \<Rightarrow> st1)
              in (w2\<lparr>pendingRestarts := pendingRestarts w2 + 1\<rparr>, st'))
         | Fixed \<Rightarrow> (w2\<lparr>hidden := True\<rparr>, st))"

text \<open>
  \<open>updateCountdown\<close>: \<open>remaining = this.endTime - Date.now()\<close>; an expired time is handed
  to \<open>handleExpired\<close>, any other is displayed as \<open>HH:MM:SS\<close>. A \<open>NaN\<close> remaining time is
  not \<open>\<le> 0\<close>, and every component of it is \<open>NaN\<close>.
\<close>

definition updateCountdown :: "widget \<Rightarrow> storage \<Rightarrow> int \<Rightarrow> widget \<times> storage" where
  "updateCountdown w st now =
     (case js_sub (endTime w) (Some now) of
        None \<Rightarrow> (w\<lparr>timeDisplay := ''NaN:NaN:NaN''\<rparr>, st)
      | Some remaining \<Rightarrow>
          let time = parseTimeRemaining_widget remaining
          in if expired time then handleExpired w st
             else (w\<lparr>timeDisplay := pad (hours time) @ '':'' @ pad (minutes time) @ '':''
                                       @ pad (seconds time)\<rparr>, st))"

text \<open>\<open>startCountdown\<close>: one update at once, then a new interval is armed and held.\<close>

definition startCountdown :: "widget \<Rightarrow> storage \<Rightarrow> int \<Rightarrow> widget \<times> storage" where
  "startCountdown w st now =
     (case updateCountdown w st now of
        (w1, st1) \<Rightarrow>
          (w1\<lparr>intervalId := Some (nextHandle w1),
              liveIntervals := liveIntervals w1 @ [nextHandle w1],
              nextHandle := nextHandle w1 + 1\<rparr>, st1))"

text \<open>
  The events of the page: the interval with handle \<open>h\<close> fires (a cleared interval never
  does), and a pending restart timeout fires (\<open>setupTimerEndpoint\<close>, then
  \<open>startCountdown\<close>).
\<close>

definition tick :: "nat \<Rightarrow> widget \<Rightarrow> storage \<Rightarrow> int \<Rightarrow> widget \<times> storage" where
  "tick h w st now = (if h \<in> set (liveIntervals w) then updateCountdown w st now else (w, st))"

definition restart :: "widget \<Rightarrow> storage \<Rightarrow> int \<Rightarrow> (widget \<times> storage) tracked" where
  "restart w st now =
     (if pendingRestarts w = 0 then Tracked (w, st)
      else
        (case setupTimerEndpoint (w\<lparr>pendingRestarts := pendingRestarts w - 1\<rparr>) st now of
           Untracked \<Rightarrow> Untracked
         | Tracked (w1, st1) \<Rightarrow> Tracked (startCountdown w1 st1 now)))"

text \<open>A working, empty storage, and a fresh widget for a timer.\<close>

definition empty_storage :: storage where
  "empty_storage = \<lparr>items = (\<lambda>k. None), getItem_throws = False, setItem_throws = False,
     removeItem_throws = False\<rparr>"

definition new_widget :: "timer \<Rightarrow> widget" where
  "new_widget t = \<lparr>wtimer = t, endTime = None, intervalId = None, liveIntervals = [],
     nextHandle = 1, pendingRestarts = 0, hidden = False, timeDisplay = ''00:00:00'',
     expiredCalls = 0\<rparr>"

text \<open>
  A widget of the sample fixed timer whose countdown runs: end instant 3661000, one live
  interval with handle 1.
\<close>

definition running_widget :: widget where
  "running_widget = (new_widget fixed_timer)\<lparr>endTime := Some 3661000, intervalId := Some 1,
     liveIntervals := [1], nextHandle := 2\<rparr>"

section \<open>Properties of the status computation\<close>

lemma status_virtual_eq: "status_virtual t now = calculateTimerStatus (Some t) now"
  by (simp add: status_virtual_def calculateTimerStatus_def js_gt_def Let_def)

text \<open>
  C1. The claim: an active fixed timer whose start or end is missing or unparseable, or
  whose end is not after its start, has status Invalid. On the code: for the timer
  \<open>{ type: 'fixed', isActive: true }\<close> of the test suite (no dates at all)
  \<open>calculateTimerStatus\<close> and the schema's virtual report Active at every instant, a
  timer with unparseable dates is Active as well, and a timer whose end precedes its start
  is reported Scheduled before the start and Expired after it; none of them is ever
  Invalid. The test suite's \<open>determineStatus\<close> returns Invalid on each of these inputs.
\<close>

theorem malformed_window_not_invalid:
  "calculateTimerStatus (Some sample_timer) now = Active \<and>
   status_virtual sample_timer now = Active \<and>
   determineStatus (Some sample_timer) now = Invalid \<and>
   calculateTimerStatus
     (Some (sample_timer\<lparr>startDate := Unparseable, endDate := Unparseable\<rparr>)) now = Active \<and>
   determineStatus
     (Some (sample_timer\<lparr>startDate := Unparseable, endDate := Unparseable\<rparr>)) now = Invalid \<and>
   calculateTimerStatus
     (Some (sample_timer\<lparr>startDate := Instant 2000, endDate := Instant 1000\<rparr>)) 500 = Scheduled \<and>
   calculateTimerStatus
     (Some (sample_timer\<lparr>startDate := Instant 2000, endDate := Instant 1000\<rparr>)) 3000 = Expired \<and>
   determineStatus
     (Some (sample_timer\<lparr>startDate := Instant 2000, endDate := Instant 1000\<rparr>)) 3000 = Invalid"
  by (simp add: calculateTimerStatus_def status_virtual_def determineStatus_def
      sample_timer_def js_gt_def falsy_date_def)

text \<open>
  C4. The status computation: an absent timer is Unknown (which is not Invalid); an
  inactive timer is Inactive whatever its kind and window; an active evergreen timer is
  Active; an active fixed timer with a well-formed window \<open>s < e\<close> is Scheduled when
  \<open>now < s\<close>, Expired when \<open>now > e\<close> and Active otherwise. The schema's virtual agrees
  on every present timer.
\<close>

theorem status_contract:
  "calculateTimerStatus None now = Unknown \<and> Unknown \<noteq> Invalid \<and>
   (\<not> isActive t \<longrightarrow>
      calculateTimerStatus (Some t) now = Inactive \<and> status_virtual t now = Inactive) \<and>
   (isActive t \<and> type t = Evergreen \<longrightarrow>
      calculateTimerStatus (Some t) now = Active \<and> status_virtual t now = Active) \<and>
   (isActive t \<and> type t = Fixed \<and> startDate t = Instant s \<and> endDate t = Instant e \<and> s < e \<longrightarrow>
      calculateTimerStatus (Some t) now =
        (if now < s then Scheduled else if now > e then Expired else Active) \<and>
      status_virtual t now = calculateTimerStatus (Some t) now)"
  by (simp add: calculateTimerStatus_def status_virtual_def js_gt_def)

theorem status_contract_witness:
  "calculateTimerStatus (Some (sample_timer\<lparr>isActive := False, startDate := Instant 10,
       endDate := Instant 20\<rparr>)) 30 = Inactive \<and>
   calculateTimerStatus (Some (sample_timer\<lparr>type := Evergreen\<rparr>)) 30 = Active \<and>
   calculateTimerStatus (Some (sample_timer\<lparr>startDate := Instant 10,
       endDate := Instant 20\<rparr>)) 5 = Scheduled \<and>
   calculateTimerStatus (Some (sample_timer\<lparr>startDate := Instant 10,
       endDate := Instant 20\<rparr>)) 20 = Active \<and>
   calculateTimerStatus (Some (sample_timer\<lparr>startDate := Instant 10,
       endDate := Instant 20\<rparr>)) 21 = Expired"
  using
    status_contract [of 30 "sample_timer\<lparr>isActive := False, startDate := Instant 10,
       endDate := Instant 20\<rparr>" 10 20]
    status_contract [of 30 "sample_timer\<lparr>type := Evergreen\<rparr>" 0 1]
    status_contract [of 5 "sample_timer\<lparr>startDate := Instant 10, endDate := Instant 20\<rparr>" 10 20]
    status_contract [of 20 "sample_timer\<lparr>startDate := Instant 10, endDate := Instant 20\<rparr>" 10 20]
    status_contract [of 21 "sample_timer\<lparr>startDate := Instant 10, endDate := Instant 20\<rparr>" 10 20]
  by (simp add: sample_timer_def)

text \<open>
  C7. For an active fixed timer with a well-formed window, the status at every instant is
  one of Scheduled, Active, Expired, Invalid (in fact one of the first three, and which
  one is decided by where the instant lies with respect to the window), and between two
  instants \<open>now1 < now2\<close> the status never moves backwards in the lifecycle
  \<open>Scheduled \<rightarrow> Active \<rightarrow> Expired\<close>.
\<close>

theorem status_monotone:
  assumes "isActive t" and "type t = Fixed"
    and "startDate t = Instant s" and "endDate t = Instant e" and "s < e"
    and "now1 < now2"
  shows "calculateTimerStatus (Some t) now1 \<in> {Scheduled, Active, Expired, Invalid} \<and>
         calculateTimerStatus (Some t) now2 \<in> {Scheduled, Active, Expired, Invalid} \<and>
         (calculateTimerStatus (Some t) now1 = Scheduled \<longleftrightarrow> now1 < s) \<and>
         (calculateTimerStatus (Some t) now1 = Active \<longleftrightarrow> s \<le> now1 \<and> now1 \<le> e) \<and>
         (calculateTimerStatus (Some t) now1 = Expired \<longleftrightarrow> e < now1) \<and>
         (\<exists>i j. lifecycle_pos (calculateTimerStatus (Some t) now1) = Some i \<and>
                lifecycle_pos (calculateTimerStatus (Some t) now2) = Some j \<and> i \<le> j) \<and>
         status_virtual t now1 = calculateTimerStatus (Some t) now1"
  using assms
  by (auto simp: calculateTimerStatus_def status_virtual_def js_gt_def)

theorem status_monotone_witness:
  "calculateTimerStatus (Some (sample_timer\<lparr>startDate := Instant 10,
       endDate := Instant 20\<rparr>)) 5 = Scheduled \<and>
   lifecycle_pos (calculateTimerStatus (Some (sample_timer\<lparr>startDate := Instant 10,
       endDate := Instant 20\<rparr>)) 15) = Some 1"
proof -
  let ?t = "sample_timer\<lparr>startDate := Instant 10, endDate := Instant 20\<rparr>"
  have "isActive ?t" and "type ?t = Fixed" and "startDate ?t = Instant 10"
    and "endDate ?t = Instant 20" and "(10::int) < 20" and "(5::int) < 15"
    by (simp_all add: sample_timer_def)
  from status_monotone [OF this] show ?thesis
    by (simp add: calculateTimerStatus_def js_gt_def sample_timer_def)
qed

section \<open>Properties of the targeting matcher\<close>

text \<open>
  C2. The claim: id comparison in the matcher is exact, and substring containment is not a
  match. On the code: \<open>matchesTargeting\<close> (and the storefront route's inlined copy)
  accepts the product id \<open>12\<close> for a timer that targets only the product \<open>120\<close>, and the
  collection \<open>c-1\<close> for a timer that targets only \<open>c-10\<close>, because it also accepts an id
  that contains, or is contained in, a targeted id. The filter of
  \<open>Timer.findActiveForProduct\<close> rejects both.
\<close>

theorem matchesTargeting_substring:
  "matchesTargeting products_timer (Some ''12'') [] = True \<and>
   ''12'' \<notin> set [''120''] \<and>
   model_targeting_filter products_timer (Some ''12'') [] = False \<and>
   matchesTargeting collections_timer None [''c-1''] = True \<and>
   set [''c-1''] \<inter> set [''c-10''] = {} \<and>
   model_targeting_filter collections_timer None [''c-1''] = False"
  by (simp add: matchesTargeting_def model_targeting_filter_def targeting_scope_def
      products_timer_def collections_timer_def sample_timer_def str_includes_def
      sublist_code prefix_code)

section \<open>Properties of the storefront read path\<close>

lemma active_query_iff: "active_query sh now t \<longleftrightarrow> shop t = sh \<and> isActive t \<and>
      (type t = Evergreen \<or> (type t = Fixed \<and> in_window (startDate t) (endDate t) now))"
  by (cases "startDate t"; cases "endDate t") (auto simp: active_query_def)

lemma eligible_iff:
  "eligible sh now pid cids t \<longleftrightarrow> active_query sh now t \<and> matches_exact t pid cids"
  by (auto simp: eligible_def active_query_iff)

lemma hd_filter_sorted:
  "sorted (map f xs) \<Longrightarrow> filter P xs = y # ys \<Longrightarrow> z \<in> set xs \<Longrightarrow> P z \<Longrightarrow> f y \<le> f z"
proof (induction xs)
  case Nil then show ?case by simp
next
  case (Cons x xs)
  then show ?case by (auto split: if_splits)
qed

lemma set_find_sorted: "set (find_sorted sh now db) = {t \<in> set db. active_query sh now t}"
  by (simp add: find_sorted_def)

lemma sorted_find_sorted: "sorted (map (\<lambda>t. - createdAt t) (find_sorted sh now db))"
  by (simp add: find_sorted_def)

text \<open>
  The structure of the route's selection: it answers with no timer exactly when no
  document passes the query and the route's targeting filter, and otherwise with one such
  document whose creation time is at least that of every other.
\<close>

lemma select_timer_None:
  "select_timer sh now pid cids db = None \<longleftrightarrow>
   (\<forall>t \<in> set db. \<not> (active_query sh now t \<and> matchesTargeting t pid cids))"
proof -
  have "select_timer sh now pid cids db = None \<longleftrightarrow>
        filter (\<lambda>t. matchesTargeting t pid cids) (find_sorted sh now db) = []"
    by (simp add: select_timer_def split: list.splits)
  also have "\<dots> \<longleftrightarrow> (\<forall>t \<in> set db. \<not> (active_query sh now t \<and> matchesTargeting t pid cids))"
    by (auto simp: filter_empty_conv set_find_sorted)
  finally show ?thesis .
qed

lemma select_timer_Some:
  assumes "select_timer sh now pid cids db = Some t"
  shows "t \<in> set db" and "active_query sh now t" and "matchesTargeting t pid cids"
    and "\<forall>u \<in> set db. active_query sh now u \<and> matchesTargeting u pid cids \<longrightarrow>
           createdAt u \<le> createdAt t"
proof -
  let ?xs = "find_sorted sh now db"
  let ?P = "\<lambda>t. matchesTargeting t pid cids"
  from assms obtain ys where f: "filter ?P ?xs = t # ys"
    by (auto simp: select_timer_def split: list.splits)
  then have "t \<in> set (filter ?P ?xs)" by simp
  then have t: "t \<in> set ?xs" "?P t" by simp_all
  then show "t \<in> set db" "active_query sh now t" "matchesTargeting t pid cids"
    by (simp_all add: set_find_sorted)
  show "\<forall>u \<in> set db. active_query sh now u \<and> matchesTargeting u pid cids \<longrightarrow>
          createdAt u \<le> createdAt t"
  proof (intro ballI impI)
    fix u assume "u \<in> set db" "active_query sh now u \<and> matchesTargeting u pid cids"
    then have "u \<in> set ?xs" "?P u" by (simp_all add: set_find_sorted)
    from hd_filter_sorted [OF sorted_find_sorted f this]
    show "createdAt u \<le> createdAt t" by simp
  qed
qed

text \<open>
  \<open>Timer.findActiveForProduct\<close> returns every document that passes the query and the
  model's own targeting filter, newest first.
\<close>

lemma findActiveForProduct_newest_first:
  "sorted (map (\<lambda>t. - createdAt t) (findActiveForProduct sh pid cids now db)) \<and>
   set (findActiveForProduct sh pid cids now db) =
     {t \<in> set db. active_query sh now t \<and> model_targeting_filter t pid cids}"
  using sorted_find_sorted [of sh now db]
  by (auto simp: findActiveForProduct_def set_find_sorted sorted_filter)

text \<open>
  C5. The claim: selection returns the newest candidate among those that are shop-owned,
  active, time-eligible and accepted by the targeting matcher, and None when no candidate
  passes. On the code: for the product id \<open>12\<close>, the route selects the timer that targets
  only the product \<open>120\<close>, which is not eligible: alone in the collection it is returned
  (and served with status 200) where the claim says None, and next to an older timer that
  targets the product \<open>12\<close> it is returned in place of that eligible timer. The route's
  targeting filter accepts an id contained in a targeted id; \<open>Timer.findActiveForProduct\<close>
  on the same collection returns the eligible timer only.
\<close>

theorem selection_returns_ineligible:
  "select_timer ''a.myshopify.com'' 15 (Some ''12'') [] [product120_timer] =
     Some product120_timer \<and>
   \<not> eligible ''a.myshopify.com'' 15 (Some ''12'') [] product120_timer \<and>
   get_timer (Some ''a.myshopify.com'') (Some ''12'') None 15 [product120_timer] =
     Status200 (build_response product120_timer) \<and>
   select_timer ''a.myshopify.com'' 15 (Some ''12'') [] [product12_timer, product120_timer] =
     Some product120_timer \<and>
   eligible ''a.myshopify.com'' 15 (Some ''12'') [] product12_timer \<and>
   findActiveForProduct ''a.myshopify.com'' (Some ''12'') [] 15
     [product12_timer, product120_timer] = [product12_timer]"
proof -
  note defs = product120_timer_def product12_timer_def evergreen_timer_def sample_timer_def
  have q: "active_query ''a.myshopify.com'' 15 product120_timer"
    "active_query ''a.myshopify.com'' 15 product12_timer"
    by (simp_all add: active_query_def defs)
  have m: "matchesTargeting product120_timer (Some ''12'') []"
    "matchesTargeting product12_timer (Some ''12'') []"
    by (simp_all add: matchesTargeting_def targeting_scope_def defs str_includes_def
        sublist_code prefix_code)
  have x: "\<not> matches_exact product120_timer (Some ''12'') []"
    "matches_exact product12_timer (Some ''12'') []"
    "\<not> model_targeting_filter product120_timer (Some ''12'') []"
    "model_targeting_filter product12_timer (Some ''12'') []"
    by (simp_all add: matches_exact_def model_targeting_filter_def targeting_scope_def defs)
  have c: "createdAt product120_timer = 5" "createdAt product12_timer = 4"
    by (simp_all add: defs)
  have 1: "select_timer ''a.myshopify.com'' 15 (Some ''12'') [] [product120_timer] =
     Some product120_timer"
    by (simp add: select_timer_def find_sorted_def q m)
  have 2: "\<not> eligible ''a.myshopify.com'' 15 (Some ''12'') [] product120_timer"
    by (simp add: eligible_iff x)
  have n: "trim (toLowerCase ''a.myshopify.com'') = ''a.myshopify.com''"
    by (simp add: trim_def toLowerCase_def toLowerCase_char_def is_whitespace_def)
  have 3: "get_timer (Some ''a.myshopify.com'') (Some ''12'') None 15 [product120_timer] =
     Status200 (build_response product120_timer)"
    by (simp add: get_timer_def n collectionIdArray_def 1)
  have 4: "select_timer ''a.myshopify.com'' 15 (Some ''12'') []
      [product12_timer, product120_timer] = Some product120_timer"
    by (simp add: select_timer_def find_sorted_def q m c)
  have 5: "eligible ''a.myshopify.com'' 15 (Some ''12'') [] product12_timer"
    by (simp add: eligible_iff x q)
  have 6: "findActiveForProduct ''a.myshopify.com'' (Some ''12'') [] 15
     [product12_timer, product120_timer] = [product12_timer]"
    by (simp add: findActiveForProduct_def find_sorted_def q x c)
  from 1 2 3 4 5 6 show ?thesis by blast
qed

lemma active_query_shop: "active_query sh now t \<Longrightarrow> shop t = sh"
  by (simp add: active_query_def)

lemma find_sorted_shop_records:
  "find_sorted sh now db = find_sorted sh now (shop_records sh db)"
proof -
  have "filter (active_query sh now) (filter (\<lambda>t. shop t = sh) db) = filter (active_query sh now) db"
    by (auto simp: filter_filter active_query_shop intro: filter_cong)
  then show ?thesis by (simp add: find_sorted_def shop_records_def)
qed

lemma select_timer_shop_records:
  "select_timer sh now pid cids db = select_timer sh now pid cids (shop_records sh db)"
  using find_sorted_shop_records [of sh now db] by (simp add: select_timer_def)

text \<open>
  C8. The response built for the selected timer has exactly the keys \<open>id\<close>, \<open>type\<close>,
  \<open>appearance\<close> (with its five display fields) and \<open>endDate\<close>/\<open>startDate\<close> for a fixed
  timer or \<open>durationMinutes\<close> for an evergreen one; it does not change when the shop,
  name, targeting lists, impression count, active flag, AI flag or timestamps of the
  timer change, nor with the window fields of the other kind. The handler's answer is the
  same on two collections that hold the same records of the requested shop: records of
  other shops, added or removed anywhere, never change it.
\<close>

theorem response_minimal_isolated:
  "map fst (build_response t) =
     (case type t of
        Fixed \<Rightarrow> [''id'', ''type'', ''appearance'', ''endDate'', ''startDate'']
      | Evergreen \<Rightarrow> [''id'', ''type'', ''appearance'', ''durationMinutes'']) \<and>
   (\<exists>a. map_of (build_response t) ''appearance'' = Some (JObject a) \<and>
        map fst a = [''backgroundColor'', ''textColor'', ''position'', ''headline'',
                     ''supportingText'']) \<and>
   build_response (t\<lparr>shop := x1, name := x2, targeting := x3, impressions := x4,
       isActive := x5, isAiGenerated := x6, createdAt := x7, updatedAt := x8\<rparr>) = build_response t \<and>
   (type t = Fixed \<longrightarrow> build_response (t\<lparr>durationMinutes := d\<rparr>) = build_response t) \<and>
   (type t = Evergreen \<longrightarrow>
      build_response (t\<lparr>startDate := d1, endDate := d2\<rparr>) = build_response t) \<and>
   ((\<forall>s. shopParam = Some s \<longrightarrow>
        shop_records (trim (toLowerCase s)) db1 = shop_records (trim (toLowerCase s)) db2) \<longrightarrow>
      get_timer shopParam pid cq now db1 = get_timer shopParam pid cq now db2)"
proof -
  have "get_timer shopParam pid cq now db1 = get_timer shopParam pid cq now db2"
    if h: "\<forall>s. shopParam = Some s \<longrightarrow>
        shop_records (trim (toLowerCase s)) db1 = shop_records (trim (toLowerCase s)) db2"
  proof (cases shopParam)
    case None
    then show ?thesis by (simp add: get_timer_def)
  next
    case (Some s)
    with h have "shop_records (trim (toLowerCase s)) db1 = shop_records (trim (toLowerCase s)) db2"
      by simp
    then have "select_timer (trim (toLowerCase s)) now pid (collectionIdArray cq) db1 =
               select_timer (trim (toLowerCase s)) now pid (collectionIdArray cq) db2"
      using select_timer_shop_records [of "trim (toLowerCase s)" now pid "collectionIdArray cq" db1]
        select_timer_shop_records [of "trim (toLowerCase s)" now pid "collectionIdArray cq" db2]
      by simp
    with Some show ?thesis by (simp add: get_timer_def)
  qed
  moreover have "map fst (build_response t) =
     (case type t of
        Fixed \<Rightarrow> [''id'', ''type'', ''appearance'', ''endDate'', ''startDate'']
      | Evergreen \<Rightarrow> [''id'', ''type'', ''appearance'', ''durationMinutes''])"
    by (simp add: build_response_def split: timer_type.splits)
  moreover have "\<exists>a. map_of (build_response t) ''appearance'' = Some (JObject a) \<and>
        map fst a = [''backgroundColor'', ''textColor'', ''position'', ''headline'',
                     ''supportingText'']"
    by (simp add: build_response_def)
  moreover have "build_response (t\<lparr>shop := x1, name := x2, targeting := x3, impressions := x4,
       isActive := x5, isAiGenerated := x6, createdAt := x7, updatedAt := x8\<rparr>) = build_response t"
    by (cases "type t") (simp_all add: build_response_def appearance_field_def)
  moreover have "type t = Fixed \<longrightarrow> build_response (t\<lparr>durationMinutes := d\<rparr>) = build_response t"
    by (simp add: build_response_def appearance_field_def)
  moreover have "type t = Evergreen \<longrightarrow>
      build_response (t\<lparr>startDate := d1, endDate := d2\<rparr>) = build_response t"
    by (simp add: build_response_def appearance_field_def)
  ultimately show ?thesis by blast
qed

theorem response_minimal_isolated_witness:
  "get_timer (Some '' A.MyShopify.com'') None None 15 [fixed_timer, evergreen_timer] =
   get_timer (Some '' A.MyShopify.com'') None None 15
     [other_shop_timer, fixed_timer, other_shop_timer\<lparr>timerId := ''t4''\<rparr>, evergreen_timer] \<and>
   build_response (fixed_timer\<lparr>durationMinutes := Some 7\<rparr>) = build_response fixed_timer \<and>
   build_response (evergreen_timer\<lparr>startDate := Instant 1, endDate := Instant 2\<rparr>) =
     build_response evergreen_timer"
proof -
  have n: "trim (toLowerCase '' A.MyShopify.com'') = ''a.myshopify.com''"
    by (simp add: trim_def toLowerCase_def toLowerCase_char_def is_whitespace_def)
  have "\<forall>s. Some '' A.MyShopify.com'' = Some s \<longrightarrow>
        shop_records (trim (toLowerCase s)) [fixed_timer, evergreen_timer] =
        shop_records (trim (toLowerCase s))
          [other_shop_timer, fixed_timer, other_shop_timer\<lparr>timerId := ''t4''\<rparr>, evergreen_timer]"
    by (simp add: n shop_records_def fixed_timer_def evergreen_timer_def other_shop_timer_def
        sample_timer_def)
  then have 1: "get_timer (Some '' A.MyShopify.com'') None None 15 [fixed_timer, evergreen_timer] =
      get_timer (Some '' A.MyShopify.com'') None None 15
        [other_shop_timer, fixed_timer, other_shop_timer\<lparr>timerId := ''t4''\<rparr>, evergreen_timer]"
    by (rule response_minimal_isolated [THEN conjunct2, THEN conjunct2, THEN conjunct2,
          THEN conjunct2, THEN conjunct2, THEN mp])
  have "type fixed_timer = Fixed"
    by (simp add: fixed_timer_def sample_timer_def)
  then have 2: "build_response (fixed_timer\<lparr>durationMinutes := Some 7\<rparr>) = build_response fixed_timer"
    by (rule response_minimal_isolated [THEN conjunct2, THEN conjunct2, THEN conjunct2,
          THEN conjunct1, rule_format])
  have "type evergreen_timer = Evergreen"
    by (simp add: evergreen_timer_def sample_timer_def)
  then have 3: "build_response (evergreen_timer\<lparr>startDate := Instant 1, endDate := Instant 2\<rparr>) =
     build_response evergreen_timer"
    by (rule response_minimal_isolated [THEN conjunct2, THEN conjunct2, THEN conjunct2,
          THEN conjunct2, THEN conjunct1, rule_format])
  from 1 2 3 show ?thesis by simp
qed

section \<open>Properties of impression recording\<close>

lemma findOneAndUpdate_None:
  "\<forall>t \<in> set db. \<not> P t \<Longrightarrow> findOneAndUpdate P f db = (None, db)"
  by (induction db) auto

lemma findOneAndUpdate_Some:
  "\<exists>t \<in> set db. P t \<Longrightarrow>
   \<exists>pre t post. db = pre @ t # post \<and> (\<forall>u \<in> set pre. \<not> P u) \<and> P t \<and>
     findOneAndUpdate P f db = (Some t, pre @ f t # post)"
proof (induction db)
  case Nil then show ?case by simp
next
  case (Cons a db)
  show ?case
  proof (cases "P a")
    case True
    then have "a # db = [] @ a # db \<and> (\<forall>u \<in> set []. \<not> P u) \<and> P a \<and>
      findOneAndUpdate P f (a # db) = (Some a, [] @ f a # db)" by simp
    then show ?thesis by blast
  next
    case False
    with Cons.prems have "\<exists>t \<in> set db. P t" by auto
    from Cons.IH [OF this] obtain pre t post where
      h: "db = pre @ t # post" "\<forall>u \<in> set pre. \<not> P u" "P t"
         "findOneAndUpdate P f db = (Some t, pre @ f t # post)" by blast
    with False have "a # db = (a # pre) @ t # post \<and> (\<forall>u \<in> set (a # pre). \<not> P u) \<and> P t \<and>
      findOneAndUpdate P f (a # db) = (Some t, (a # pre) @ f t # post)" by simp
    then show ?thesis by blast
  qed
qed

lemma impression_filter_id: "impression_filter castId ident sp t \<Longrightarrow> timerId t = castId ident"
  by (simp add: impression_filter_def)

lemma impression_try_ok:
  "sp \<noteq> ShopOther \<Longrightarrow>
   impression_try castId False now ident sp db =
     (case findOneAndUpdate (impression_filter castId ident sp) (inc_impressions now) db of
        (None, db') \<Rightarrow> Inr (Impression404, db')
      | (Some timer, db') \<Rightarrow> Inr (ImpressionRecorded, db'))"
proof (cases sp)
  case NoShop
  have "(\<lambda>t. timerId t = castId ident \<and> True) = impression_filter castId ident NoShop"
    by (rule ext) (simp add: impression_filter_def)
  then show ?thesis using NoShop by (simp add: impression_try_def)
next
  case (ShopString s)
  show ?thesis
  proof (cases "s = []")
    case True
    have "(\<lambda>t. timerId t = castId ident \<and> True) = impression_filter castId ident (ShopString [])"
      by (rule ext) (simp add: impression_filter_def)
    then show ?thesis using ShopString True by (simp add: impression_try_def)
  next
    case False
    then have "(\<lambda>t. timerId t = castId ident \<and> shop t = trim (toLowerCase s)) =
        impression_filter castId ident (ShopString s)"
      by (intro ext) (simp add: impression_filter_def)
    then show ?thesis using ShopString False by (simp add: impression_try_def)
  qed
next
  case ShopOther
  moreover assume "sp \<noteq> ShopOther"
  ultimately show ?thesis by simp
qed

text \<open>
  C10, as stated, fails on the code. Recording an impression for the document \<open>doc_a\<close>
  also sets its \<open>updatedAt\<close> field (the schema has \<open>timestamps: true\<close>), so a field other
  than \<open>impressions\<close> changes. A request whose \<open>shop\<close> is a truthy value that is not a
  string, or whose database call fails, is answered as recorded although no document is
  modified; and a request with an id that is not well-formed is answered as an invalid id,
  not as not found.
\<close>

theorem impression_touches_updatedAt:
  "post_impression hex24 toLowerCase False 500 ''507F1F77BCF86CD799439011'' NoShop [doc_a, doc_b] =
     (ImpressionRecorded, [doc_a\<lparr>impressions := 1, updatedAt := 500\<rparr>, doc_b]) \<and>
   updatedAt (doc_a\<lparr>impressions := 1, updatedAt := 500\<rparr>) \<noteq> updatedAt doc_a \<and>
   post_impression hex24 toLowerCase False 500 ''507f1f77bcf86cd799439013'' ShopOther
     [doc_a, doc_b] = (ImpressionRecorded, [doc_a, doc_b]) \<and>
   post_impression hex24 toLowerCase True 500 ''507f1f77bcf86cd799439013'' NoShop
     [doc_a, doc_b] = (ImpressionRecorded, [doc_a, doc_b]) \<and>
   post_impression hex24 toLowerCase False 500 ''t1'' NoShop [doc_a, doc_b] =
     (Impression400, [doc_a, doc_b])"
  by (simp add: post_impression_def impression_try_def hex24_def inc_impressions_def
      toLowerCase_def toLowerCase_char_def doc_a_def doc_b_def evergreen_timer_def
      other_shop_timer_def sample_timer_def)

text \<open>
  C10, amended. For a well-formed id, a \<open>shop\<close> that is absent or a string, and a working
  database: when no document matches the id (and the shop, when one is supplied) the
  collection is unchanged and the answer is not found; when a document matches, the first
  match has its \<open>impressions\<close> incremented by one and its \<open>updatedAt\<close> set to the time of
  the update, and nothing else in the collection changes. With unique ids there is exactly
  one matching document. An id that is not well-formed is answered as invalid, and an
  error in the handler (a \<open>shop\<close> that is truthy and not a string, a failing database) is
  answered as recorded; in both cases the collection is unchanged. The instance method
  \<open>incrementImpressions\<close> increments \<open>impressions\<close> and, when the save succeeds, sets
  \<open>updatedAt\<close>; it changes no other field.
\<close>

theorem impression_frame:
  "(\<not> isValid ident \<longrightarrow>
      post_impression isValid castId dbThrows now ident sp db = (Impression400, db)) \<and>
   (isValid ident \<and> (sp = ShopOther \<or> dbThrows) \<longrightarrow>
      post_impression isValid castId dbThrows now ident sp db = (ImpressionRecorded, db)) \<and>
   (isValid ident \<and> sp \<noteq> ShopOther \<and> \<not> dbThrows \<and>
      (\<forall>t \<in> set db. \<not> impression_filter castId ident sp t) \<longrightarrow>
      post_impression isValid castId dbThrows now ident sp db = (Impression404, db)) \<and>
   (isValid ident \<and> sp \<noteq> ShopOther \<and> \<not> dbThrows \<and>
      (\<exists>t \<in> set db. impression_filter castId ident sp t) \<longrightarrow>
      (\<exists>pre t post. db = pre @ t # post \<and> impression_filter castId ident sp t \<and>
         (\<forall>u \<in> set pre. \<not> impression_filter castId ident sp u) \<and>
         post_impression isValid castId dbThrows now ident sp db =
           (ImpressionRecorded,
            pre @ t\<lparr>impressions := impressions t + 1, updatedAt := now\<rparr> # post))) \<and>
   (isValid ident \<and> sp \<noteq> ShopOther \<and> \<not> dbThrows \<and>
      (\<exists>t \<in> set db. impression_filter castId ident sp t) \<and> distinct (map timerId db) \<longrightarrow>
      post_impression isValid castId dbThrows now ident sp db =
        (ImpressionRecorded,
         map (\<lambda>u. if impression_filter castId ident sp u
                   then u\<lparr>impressions := impressions u + 1, updatedAt := now\<rparr> else u) db) \<and>
      length (filter (impression_filter castId ident sp) db) = 1) \<and>
   incrementImpressions False now t =
     Inr (t\<lparr>impressions := impressions t + 1, updatedAt := now\<rparr>) \<and>
   incrementImpressions True now t = Inl SaveError"
proof -
  let ?P = "impression_filter castId ident sp"
  let ?post = "post_impression isValid castId dbThrows now ident sp db"
  let ?up = "\<lambda>u. u\<lparr>impressions := impressions u + 1, updatedAt := now\<rparr>"
  have a: "\<not> isValid ident \<longrightarrow> ?post = (Impression400, db)"
    by (simp add: post_impression_def)
  have b: "isValid ident \<and> (sp = ShopOther \<or> dbThrows) \<longrightarrow> ?post = (ImpressionRecorded, db)"
    by (cases sp) (auto simp: post_impression_def impression_try_def)
  have ok: "?post =
      (case findOneAndUpdate ?P (inc_impressions now) db of
         (None, db') \<Rightarrow> (Impression404, db')
       | (Some timer, db') \<Rightarrow> (ImpressionRecorded, db'))"
    if "isValid ident" "sp \<noteq> ShopOther" "\<not> dbThrows"
    using that impression_try_ok [of sp castId now ident db]
    by (simp add: post_impression_def split: prod.splits option.splits)
  have c: "isValid ident \<and> sp \<noteq> ShopOther \<and> \<not> dbThrows \<and> (\<forall>t \<in> set db. \<not> ?P t) \<longrightarrow>
      ?post = (Impression404, db)"
  proof (intro impI, elim conjE)
    assume v: "isValid ident" "sp \<noteq> ShopOther" "\<not> dbThrows"
      and n: "\<forall>t \<in> set db. \<not> ?P t"
    from findOneAndUpdate_None [OF n, of "inc_impressions now"] ok [OF v]
    show "?post = (Impression404, db)" by simp
  qed
  have d: "\<exists>pre t post. db = pre @ t # post \<and> ?P t \<and> (\<forall>u \<in> set pre. \<not> ?P u) \<and>
         ?post = (ImpressionRecorded, pre @ ?up t # post)"
    if v: "isValid ident" "sp \<noteq> ShopOther" "\<not> dbThrows" and m: "\<exists>t \<in> set db. ?P t"
  proof -
    from findOneAndUpdate_Some [OF m, of "inc_impressions now"] obtain pre t post where
      h: "db = pre @ t # post" "\<forall>u \<in> set pre. \<not> ?P u" "?P t"
         "findOneAndUpdate ?P (inc_impressions now) db =
            (Some t, pre @ inc_impressions now t # post)"
      by blast
    from h(4) have "?post = (ImpressionRecorded, pre @ ?up t # post)"
      by (simp add: ok [OF v] inc_impressions_def)
    with h show ?thesis by blast
  qed
  have e: "?post = (ImpressionRecorded, map (\<lambda>u. if ?P u then ?up u else u) db) \<and>
      length (filter ?P db) = 1"
    if v: "isValid ident" "sp \<noteq> ShopOther" "\<not> dbThrows" and m: "\<exists>t \<in> set db. ?P t"
      and di: "distinct (map timerId db)"
  proof -
    from d [OF v m] obtain pre t post where
      h: "db = pre @ t # post" "?P t" "\<forall>u \<in> set pre. \<not> ?P u"
         "?post = (ImpressionRecorded, pre @ ?up t # post)"
      by blast
    from h(2) have ti: "timerId t = castId ident" by (rule impression_filter_id)
    have np: "\<forall>u \<in> set post. \<not> ?P u"
    proof
      fix u assume u: "u \<in> set post"
      show "\<not> ?P u"
      proof
        assume "?P u"
        then have "timerId u = timerId t" using ti by (simp add: impression_filter_id)
        moreover from di h(1) have "timerId t \<notin> timerId ` set post" by simp
        ultimately show False using u by (metis imageI)
      qed
    qed
    from h(3) have m1: "map (\<lambda>u. if ?P u then ?up u else u) pre = pre"
      by (induction pre) auto
    from np have m2: "map (\<lambda>u. if ?P u then ?up u else u) post = post"
      by (induction post) auto
    from h(3) have f1: "filter ?P pre = []" by (simp add: filter_empty_conv)
    from np have f2: "filter ?P post = []" by (simp add: filter_empty_conv)
    from h m1 m2 f1 f2 show ?thesis by simp
  qed
  have f: "incrementImpressions False now t = Inr (?up t)"
    "incrementImpressions True now t = Inl SaveError"
    by (simp_all add: incrementImpressions_def save_def)
  from a b c d e f show ?thesis by blast
qed

theorem impression_frame_witness:
  "post_impression hex24 toLowerCase False 500 ''507F1F77BCF86CD799439011''
     (ShopString ''A.myshopify.com'') [doc_b, doc_a] =
     (ImpressionRecorded, [doc_b, doc_a\<lparr>impressions := 1, updatedAt := 500\<rparr>]) \<and>
   post_impression hex24 toLowerCase False 500 ''507f1f77bcf86cd799439012''
     (ShopString ''A.myshopify.com'') [doc_b, doc_a] = (Impression404, [doc_b, doc_a]) \<and>
   post_impression hex24 toLowerCase False 500 ''t2'' NoShop [doc_b, doc_a] =
     (Impression400, [doc_b, doc_a]) \<and>
   post_impression hex24 toLowerCase False 500 ''507f1f77bcf86cd799439011'' ShopOther
     [doc_b, doc_a] = (ImpressionRecorded, [doc_b, doc_a])"
proof -
  let ?db = "[doc_b, doc_a]"
  let ?i = "''507F1F77BCF86CD799439011''"
  let ?j = "''507f1f77bcf86cd799439012''"
  let ?sp = "ShopString ''A.myshopify.com''"
  note defs = impression_filter_def doc_a_def doc_b_def evergreen_timer_def
    other_shop_timer_def sample_timer_def trim_def toLowerCase_def toLowerCase_char_def
    is_whitespace_def hex24_def
  have "hex24 ?i \<and> ?sp \<noteq> ShopOther \<and> \<not> False \<and>
        (\<exists>t \<in> set ?db. impression_filter toLowerCase ?i ?sp t) \<and> distinct (map timerId ?db)"
    by (simp add: defs)
  then have "post_impression hex24 toLowerCase False 500 ?i ?sp ?db =
        (ImpressionRecorded,
         map (\<lambda>u. if impression_filter toLowerCase ?i ?sp u
                   then u\<lparr>impressions := impressions u + 1, updatedAt := 500\<rparr> else u) ?db)"
    by (rule impression_frame [THEN conjunct2, THEN conjunct2, THEN conjunct2, THEN conjunct2,
          THEN conjunct1, THEN mp, THEN conjunct1])
  then have 1: "post_impression hex24 toLowerCase False 500 ?i ?sp ?db =
     (ImpressionRecorded, [doc_b, doc_a\<lparr>impressions := 1, updatedAt := 500\<rparr>])"
    by (simp add: defs)
  have "hex24 ?j \<and> ?sp \<noteq> ShopOther \<and> \<not> False \<and>
        (\<forall>t \<in> set ?db. \<not> impression_filter toLowerCase ?j ?sp t)"
    by (simp add: defs)
  then have 2: "post_impression hex24 toLowerCase False 500 ?j ?sp ?db = (Impression404, ?db)"
    by (rule impression_frame [THEN conjunct2, THEN conjunct2, THEN conjunct1, THEN mp])
  have "\<not> hex24 ''t2''" by (simp add: hex24_def)
  then have 3: "post_impression hex24 toLowerCase False 500 ''t2'' NoShop ?db = (Impression400, ?db)"
    by (rule impression_frame [THEN conjunct1, THEN mp])
  have "hex24 ''507f1f77bcf86cd799439011'' \<and> (ShopOther = ShopOther \<or> False)"
    by (simp add: hex24_def)
  then have 4: "post_impression hex24 toLowerCase False 500 ''507f1f77bcf86cd799439011'' ShopOther
     ?db = (ImpressionRecorded, ?db)"
    by (rule impression_frame [THEN conjunct2, THEN conjunct1, THEN mp])
  from 1 2 3 4 show ?thesis by simp
qed

section \<open>Properties of the evergreen session clock\<close>















text \<open>
  A stored numeral beyond the safe integers is outside what the model tracks.
\<close>

lemma evergreen_beyond_untracked:
  "setupTimerEndpoint (new_widget evergreen_timer)
     (empty_storage\<lparr>items := (items empty_storage)
        (''countdown_timer_t2'' := Some ''9007199254740993'')\<rparr>) 1000 = Untracked"
  by (simp add: setupTimerEndpoint_def evergreen_try_def getItem_def getStorageKey_def
      parseInt_def is_whitespace_def is_digit_def digit_value_def MAX_SAFE_INTEGER_def
      new_widget_def evergreen_timer_def sample_timer_def empty_storage_def)



section \<open>Properties of the countdown render loop\<close>

lemma split_seconds:
  fixes ts :: int
  shows "(ts div 86400) * 86400 + ((ts mod 86400) div 3600) * 3600 + ((ts mod 3600) div 60) * 60
           + ts mod 60 = ts"
proof -
  have a: "(ts mod 86400) mod 3600 = ts mod 3600" by (simp add: mod_mod_cancel)
  have b: "(ts mod 3600) mod 60 = ts mod 60" by (simp add: mod_mod_cancel)
  have "ts = (ts div 86400) * 86400 + ts mod 86400" by simp
  also have "ts mod 86400 = ((ts mod 86400) div 3600) * 3600 + (ts mod 86400) mod 3600" by simp
  also have "(ts mod 86400) mod 3600 = ((ts mod 3600) div 60) * 60 + (ts mod 3600) mod 60"
    unfolding a by simp
  finally show ?thesis unfolding b by simp
qed

lemma split_seconds_widget:
  fixes ts :: int
  shows "(ts div 3600) * 3600 + ((ts mod 3600) div 60) * 60 + ts mod 60 = ts"
proof -
  have b: "(ts mod 3600) mod 60 = ts mod 60" by (simp add: mod_mod_cancel)
  have "ts = (ts div 3600) * 3600 + ts mod 3600" by simp
  also have "ts mod 3600 = ((ts mod 3600) div 60) * 60 + (ts mod 3600) mod 60" by simp
  finally show ?thesis unfolding b by simp
qed

lemma parseTimeRemaining_sum:
  "days (parseTimeRemaining ms) * 86400 + hours (parseTimeRemaining ms) * 3600
     + minutes (parseTimeRemaining ms) * 60 + seconds (parseTimeRemaining ms)
   = max 0 ms div 1000"
  using split_seconds [of "ms div 1000"]
  by (simp add: parseTimeRemaining_def Let_def)

lemma parts_bounds:
  fixes ts :: int
  assumes "0 \<le> ts"
  shows "0 \<le> ts div 86400" and "0 \<le> ts div 3600"
    and "0 \<le> (ts mod 86400) div 3600" and "(ts mod 86400) div 3600 < 24"
    and "0 \<le> (ts mod 3600) div 60" and "(ts mod 3600) div 60 < 60"
    and "0 \<le> ts mod 60" and "ts mod 60 < 60"
proof -
  show "0 \<le> ts div 86400" using assms by (rule pos_imp_zdiv_nonneg_iff [THEN iffD2, rotated]) simp
  show "0 \<le> ts div 3600" using assms by (rule pos_imp_zdiv_nonneg_iff [THEN iffD2, rotated]) simp
  have a: "0 \<le> ts mod 86400" "ts mod 86400 < 86400" by simp_all
  from a show "0 \<le> (ts mod 86400) div 3600" by linarith
  from a show "(ts mod 86400) div 3600 < 24" by linarith
  have b: "0 \<le> ts mod 3600" "ts mod 3600 < 3600" by simp_all
  from b show "0 \<le> (ts mod 3600) div 60" by linarith
  from b show "(ts mod 3600) div 60 < 60" by linarith
  show "0 \<le> ts mod 60" "ts mod 60 < 60" by simp_all
qed

lemma parseTimeRemaining_pos:
  "0 < ms \<Longrightarrow> parseTimeRemaining ms =
     \<lparr>hours = (ms div 1000 mod 86400) div 3600, minutes = (ms div 1000 mod 3600) div 60,
      seconds = ms div 1000 mod 60, expired = False, days = ms div 1000 div 86400\<rparr>"
  by (simp add: parseTimeRemaining_def Let_def)

lemma parseTimeRemaining_bounds:
  "0 \<le> days (parseTimeRemaining ms) \<and> 0 \<le> hours (parseTimeRemaining ms) \<and>
   hours (parseTimeRemaining ms) < 24 \<and> 0 \<le> minutes (parseTimeRemaining ms) \<and>
   minutes (parseTimeRemaining ms) < 60 \<and> 0 \<le> seconds (parseTimeRemaining ms) \<and>
   seconds (parseTimeRemaining ms) < 60 \<and> expired (parseTimeRemaining ms) = (max 0 ms = 0)"
proof (cases "ms \<le> 0")
  case True
  then show ?thesis by (simp add: parseTimeRemaining_def)
next
  case False
  then have p: "0 \<le> ms div 1000" and q: "0 < ms" by simp_all
  have e: "expired (parseTimeRemaining ms) = (max 0 ms = 0)"
    using q by (simp add: parseTimeRemaining_pos)
  have f: "days (parseTimeRemaining ms) = ms div 1000 div 86400"
    "hours (parseTimeRemaining ms) = (ms div 1000 mod 86400) div 3600"
    "minutes (parseTimeRemaining ms) = (ms div 1000 mod 3600) div 60"
    "seconds (parseTimeRemaining ms) = ms div 1000 mod 60"
    by (simp_all only: parseTimeRemaining_pos [OF q] time_parts.simps widget_time.simps)
  show ?thesis unfolding f using parts_bounds [OF p] e by blast
qed

lemma parseTimeRemaining_widget_sum:
  "hours (parseTimeRemaining_widget ms) * 3600
     + minutes (parseTimeRemaining_widget ms) * 60 + seconds (parseTimeRemaining_widget ms)
   = max 0 ms div 1000"
  using split_seconds_widget [of "ms div 1000"]
  by (simp add: parseTimeRemaining_widget_def Let_def)

lemma parseTimeRemaining_widget_pos:
  "0 < ms \<Longrightarrow> parseTimeRemaining_widget ms =
     \<lparr>hours = ms div 1000 div 3600, minutes = (ms div 1000 mod 3600) div 60,
      seconds = ms div 1000 mod 60, expired = False\<rparr>"
  by (simp add: parseTimeRemaining_widget_def Let_def)

lemma parseTimeRemaining_widget_bounds:
  "0 \<le> hours (parseTimeRemaining_widget ms) \<and> 0 \<le> minutes (parseTimeRemaining_widget ms) \<and>
   minutes (parseTimeRemaining_widget ms) < 60 \<and> 0 \<le> seconds (parseTimeRemaining_widget ms) \<and>
   seconds (parseTimeRemaining_widget ms) < 60 \<and>
   expired (parseTimeRemaining_widget ms) = (max 0 ms = 0)"
proof (cases "ms \<le> 0")
  case True
  then show ?thesis by (simp add: parseTimeRemaining_widget_def)
next
  case False
  then have p: "0 \<le> ms div 1000" and q: "0 < ms" by simp_all
  have e: "expired (parseTimeRemaining_widget ms) = (max 0 ms = 0)"
    using q by (simp add: parseTimeRemaining_widget_pos)
  have f: "hours (parseTimeRemaining_widget ms) = ms div 1000 div 3600"
    "minutes (parseTimeRemaining_widget ms) = (ms div 1000 mod 3600) div 60"
    "seconds (parseTimeRemaining_widget ms) = ms div 1000 mod 60"
    by (simp_all only: parseTimeRemaining_widget_pos [OF q] widget_time.simps)
  show ?thesis unfolding f using parts_bounds [OF p] e by blast
qed

text \<open>
  C6, as stated, fails on the widget: its render loop has no days component and its hours
  are not bounded by 24. With 25 hours remaining the widget computes 25 hours and displays
  \<open>25:00:00\<close>, where the shared utility gives one day and one hour.
\<close>

theorem widget_hours_unbounded:
  "hours (parseTimeRemaining_widget 90000000) = 25 \<and>
   \<not> hours (parseTimeRemaining_widget 90000000) < 24 \<and>
   timeDisplay (fst (updateCountdown ((new_widget evergreen_timer)\<lparr>endTime := Some 90000000\<rparr>)
      empty_storage 0)) = ''25:00:00'' \<and>
   formatCountdown (parseTimeRemaining (calculateTimeRemaining 90000000 0)) = ''1d 01:00:00''"
  by (simp add: parseTimeRemaining_widget_def parseTimeRemaining_def calculateTimeRemaining_def
      updateCountdown_def formatCountdown_def padTime_def pad_def String_of_def
      string_of_nat.simps digit_char_def)

lemma tick_running:
  "endTime w = Some e \<Longrightarrow> h \<in> set (liveIntervals w) \<Longrightarrow> now < e \<Longrightarrow>
   tick h w st now =
     (w\<lparr>timeDisplay := pad (hours (parseTimeRemaining_widget (e - now))) @ '':''
          @ pad (minutes (parseTimeRemaining_widget (e - now))) @ '':''
          @ pad (seconds (parseTimeRemaining_widget (e - now)))\<rparr>, st)"
  by (simp add: tick_def updateCountdown_def Let_def parseTimeRemaining_widget_def)

lemma tick_expired:
  assumes "endTime w = Some e" and "e \<le> now" and "intervalId w = Some h"
    and "liveIntervals w = [h]"
  shows "case tick h w st now of
           (w', st') \<Rightarrow>
             liveIntervals w' = [] \<and> intervalId w' = None \<and>
             expiredCalls w' = expiredCalls w + 1 \<and>
             (\<forall>h' now'. tick h' w' st' now' = (w', st'))"
proof (cases "type (wtimer w)")
  case Fixed
  with assms show ?thesis
    by (simp add: tick_def updateCountdown_def Let_def parseTimeRemaining_widget_def
        handleExpired_def)
next
  case Evergreen
  with assms show ?thesis
    by (simp add: tick_def updateCountdown_def Let_def parseTimeRemaining_widget_def
        handleExpired_def)
qed

text \<open>
  C6, amended. The shared utilities compute \<open>remaining = max(0, end - now)\<close> and split it
  into days, hours, minutes and seconds that add up to \<open>floor(remaining / 1000)\<close> seconds,
  with hours below 24 and minutes and seconds below 60. The widget's render loop splits
  \<open>end - now\<close> into hours, minutes and seconds only, which add up to
  \<open>floor(max(0, end - now) / 1000)\<close> seconds, with minutes and seconds below 60 and hours
  unbounded; a remaining time that is not positive is flagged expired with all components
  zero. 3661000 ms is 1 hour, 1 minute, 1 second in both. A tick of the running loop
  before the end instant only updates the display; a tick of the running loop (one live
  interval, held by the widget) at or after the end instant clears the interval, runs
  \<open>handleExpired\<close> exactly once, and no later tick changes anything.
\<close>

theorem render_loop_decomposition:
  "calculateTimeRemaining e now = max 0 (e - now) \<and>
   (let r = calculateTimeRemaining e now; t = parseTimeRemaining r in
      days t * 86400 + hours t * 3600 + minutes t * 60 + seconds t = r div 1000 \<and>
      0 \<le> days t \<and> 0 \<le> hours t \<and> hours t < 24 \<and> 0 \<le> minutes t \<and> minutes t < 60 \<and>
      0 \<le> seconds t \<and> seconds t < 60 \<and> expired t = (r = 0)) \<and>
   (let r = max 0 (e - now); t = parseTimeRemaining_widget (e - now) in
      hours t * 3600 + minutes t * 60 + seconds t = r div 1000 \<and>
      0 \<le> hours t \<and> 0 \<le> minutes t \<and> minutes t < 60 \<and>
      0 \<le> seconds t \<and> seconds t < 60 \<and> expired t = (r = 0)) \<and>
   parseTimeRemaining 3661000 =
     \<lparr>hours = 1, minutes = 1, seconds = 1, expired = False, days = 0\<rparr> \<and>
   parseTimeRemaining_widget 3661000 =
     \<lparr>hours = 1, minutes = 1, seconds = 1, expired = False\<rparr> \<and>
   (endTime w = Some e \<and> h \<in> set (liveIntervals w) \<and> now < e \<longrightarrow>
      tick h w st now =
        (w\<lparr>timeDisplay := pad (hours (parseTimeRemaining_widget (e - now))) @ '':''
             @ pad (minutes (parseTimeRemaining_widget (e - now))) @ '':''
             @ pad (seconds (parseTimeRemaining_widget (e - now)))\<rparr>, st)) \<and>
   (endTime w = Some e \<and> e \<le> now \<and> intervalId w = Some h \<and> liveIntervals w = [h] \<longrightarrow>
      (case tick h w st now of
         (w', st') \<Rightarrow>
           liveIntervals w' = [] \<and> intervalId w' = None \<and>
           expiredCalls w' = expiredCalls w + 1 \<and>
           (\<forall>h' now'. tick h' w' st' now' = (w', st'))))"
proof -
  have 1: "calculateTimeRemaining e now = max 0 (e - now)"
    by (simp add: calculateTimeRemaining_def)
  have m: "max 0 (max 0 (e - now)) = max 0 (e - now)" by simp
  have 2: "let r = calculateTimeRemaining e now; t = parseTimeRemaining r in
      days t * 86400 + hours t * 3600 + minutes t * 60 + seconds t = r div 1000 \<and>
      0 \<le> days t \<and> 0 \<le> hours t \<and> hours t < 24 \<and> 0 \<le> minutes t \<and> minutes t < 60 \<and>
      0 \<le> seconds t \<and> seconds t < 60 \<and> expired t = (r = 0)"
    unfolding Let_def 1
    using parseTimeRemaining_sum [of "max 0 (e - now)"]
      parseTimeRemaining_bounds [of "max 0 (e - now)"]
    unfolding m by blast
  have 3: "let r = max 0 (e - now); t = parseTimeRemaining_widget (e - now) in
      hours t * 3600 + minutes t * 60 + seconds t = r div 1000 \<and>
      0 \<le> hours t \<and> 0 \<le> minutes t \<and> minutes t < 60 \<and>
      0 \<le> seconds t \<and> seconds t < 60 \<and> expired t = (r = 0)"
    unfolding Let_def
    using parseTimeRemaining_widget_sum [of "e - now"]
      parseTimeRemaining_widget_bounds [of "e - now"]
    by blast
  have 4: "parseTimeRemaining 3661000 =
     \<lparr>hours = 1, minutes = 1, seconds = 1, expired = False, days = 0\<rparr>"
    by (simp add: parseTimeRemaining_def)
  have 5: "parseTimeRemaining_widget 3661000 =
     \<lparr>hours = 1, minutes = 1, seconds = 1, expired = False\<rparr>"
    by (simp add: parseTimeRemaining_widget_def)
  have 6: "endTime w = Some e \<and> h \<in> set (liveIntervals w) \<and> now < e \<longrightarrow>
      tick h w st now =
        (w\<lparr>timeDisplay := pad (hours (parseTimeRemaining_widget (e - now))) @ '':''
             @ pad (minutes (parseTimeRemaining_widget (e - now))) @ '':''
             @ pad (seconds (parseTimeRemaining_widget (e - now)))\<rparr>, st)"
    using tick_running [of w e h now st] by blast
  have 7: "endTime w = Some e \<and> e \<le> now \<and> intervalId w = Some h \<and> liveIntervals w = [h] \<longrightarrow>
      (case tick h w st now of
         (w', st') \<Rightarrow>
           liveIntervals w' = [] \<and> intervalId w' = None \<and>
           expiredCalls w' = expiredCalls w + 1 \<and>
           (\<forall>h' now'. tick h' w' st' now' = (w', st')))"
  proof
    assume "endTime w = Some e \<and> e \<le> now \<and> intervalId w = Some h \<and> liveIntervals w = [h]"
    then have "endTime w = Some e" and "e \<le> now" and "intervalId w = Some h"
      and "liveIntervals w = [h]" by simp_all
    then show "case tick h w st now of
         (w', st') \<Rightarrow>
           liveIntervals w' = [] \<and> intervalId w' = None \<and>
           expiredCalls w' = expiredCalls w + 1 \<and>
           (\<forall>h' now'. tick h' w' st' now' = (w', st'))"
      by (rule tick_expired)
  qed
  show ?thesis by (intro conjI) (fact 1 2 3 4 5 6 7)+
qed

theorem render_loop_decomposition_witness:
  "tick 1 running_widget empty_storage 0 =
     (running_widget\<lparr>timeDisplay := ''01:01:01''\<rparr>, empty_storage) \<and>
   liveIntervals (fst (tick 1 running_widget empty_storage 3661000)) = [] \<and>
   intervalId (fst (tick 1 running_widget empty_storage 3661000)) = None \<and>
   expiredCalls (fst (tick 1 running_widget empty_storage 3661000)) = 1 \<and>
   tick 1 (fst (tick 1 running_widget empty_storage 3661000))
     (snd (tick 1 running_widget empty_storage 3661000)) 3662000 =
     tick 1 running_widget empty_storage 3661000"
proof -
  have a: "endTime running_widget = Some 3661000 \<and> 1 \<in> set (liveIntervals running_widget) \<and>
           (0::int) < 3661000"
    by (simp add: running_widget_def)
  have p: "pad 1 = ''01''"
    by (simp add: pad_def String_of_def string_of_nat.simps digit_char_def)
  have t: "parseTimeRemaining_widget (3661000 - 0) =
     \<lparr>hours = 1, minutes = 1, seconds = 1, expired = False\<rparr>"
    by (simp add: parseTimeRemaining_widget_def)
  from render_loop_decomposition [of 3661000 0 running_widget 1 empty_storage,
      THEN conjunct2, THEN conjunct2, THEN conjunct2, THEN conjunct2, THEN conjunct2,
      THEN conjunct1, THEN mp, OF a]
  have 1: "tick 1 running_widget empty_storage 0 =
     (running_widget\<lparr>timeDisplay := ''01:01:01''\<rparr>, empty_storage)"
    unfolding t by (simp add: p)
  have b: "endTime running_widget = Some 3661000 \<and> (3661000::int) \<le> 3661000 \<and>
           intervalId running_widget = Some 1 \<and> liveIntervals running_widget = [1]"
    by (simp add: running_widget_def)
  have c: "expiredCalls running_widget = 0"
    by (simp add: running_widget_def new_widget_def)
  from render_loop_decomposition [of 3661000 3661000 running_widget 1 empty_storage,
      THEN conjunct2, THEN conjunct2, THEN conjunct2, THEN conjunct2, THEN conjunct2,
      THEN conjunct2, THEN mp, OF b]
  have 2: "liveIntervals (fst (tick 1 running_widget empty_storage 3661000)) = [] \<and>
   intervalId (fst (tick 1 running_widget empty_storage 3661000)) = None \<and>
   expiredCalls (fst (tick 1 running_widget empty_storage 3661000)) = 1 \<and>
   tick 1 (fst (tick 1 running_widget empty_storage 3661000))
     (snd (tick 1 running_widget empty_storage 3661000)) 3662000 =
     tick 1 running_widget empty_storage 3661000"
    by (simp add: case_prod_beta c)
  from 1 2 show ?thesis by simp
qed

text \<open>
  Outside the running loop: \<open>startCountdown\<close> on a widget whose end instant has already
  passed runs \<open>handleExpired\<close> before any interval is held, and arms an interval
  afterwards; the first tick of that interval runs \<open>handleExpired\<close> a second time.
\<close>

lemma startCountdown_already_expired:
  "startCountdown ((new_widget fixed_timer)\<lparr>endTime := Some 20\<rparr>) empty_storage 30 =
     ((new_widget fixed_timer)\<lparr>endTime := Some 20, expiredCalls := 1, hidden := True,
        intervalId := Some 1, liveIntervals := [1], nextHandle := 2\<rparr>, empty_storage) \<and>
   expiredCalls (fst (tick 1 (fst (startCountdown ((new_widget fixed_timer)\<lparr>endTime := Some 20\<rparr>)
      empty_storage 30)) empty_storage 1030)) = 2"
  by (simp add: startCountdown_def updateCountdown_def handleExpired_def tick_def
      parseTimeRemaining_widget_def new_widget_def fixed_timer_def sample_timer_def)

text \<open>
  Rearming: an evergreen widget whose running loop reaches its end instant removes its
  storage key and schedules a restart; the restart opens a fresh window at the instant it
  runs and arms a new interval.
\<close>

lemma evergreen_rearm_example:
  "restart
     (fst (tick 1 ((new_widget evergreen_timer)\<lparr>endTime := Some 3601000, intervalId := Some 1,
        liveIntervals := [1], nextHandle := 2\<rparr>)
        (empty_storage\<lparr>items := (items empty_storage)(''countdown_timer_t2'' := Some ''1000'')\<rparr>)
        3601000))
     (snd (tick 1 ((new_widget evergreen_timer)\<lparr>endTime := Some 3601000, intervalId := Some 1,
        liveIntervals := [1], nextHandle := 2\<rparr>)
        (empty_storage\<lparr>items := (items empty_storage)(''countdown_timer_t2'' := Some ''1000'')\<rparr>)
        3601000))
     3601100 =
   Tracked ((new_widget evergreen_timer)\<lparr>endTime := Some 7201100, intervalId := Some 2,
       liveIntervals := [2], nextHandle := 3, expiredCalls := 1,
       timeDisplay := ''01:00:00''\<rparr>,
    empty_storage\<lparr>items := (items empty_storage)(''countdown_timer_t2'' := Some ''3601100'')\<rparr>)"
  by (simp add: restart_def tick_def updateCountdown_def handleExpired_def startCountdown_def
      setupTimerEndpoint_def evergreen_try_def getItem_def setItem_def removeItem_def
      getStorageKey_def durationMs_def js_ge_def parseTimeRemaining_widget_def
      new_widget_def evergreen_timer_def sample_timer_def empty_storage_def
      pad_def String_of_def string_of_nat.simps digit_char_def)

end
